theory Spec2Isabelle
  imports Complex_Main
begin

section \<open>MindGuard: scheduled check-in and recommendation engine\<close>

text \<open>
  A shallow embedding of the check-in ledger, the preference store, the recommendation
  selector, the daily scheduler and the check-in workflow of the MindGuard agent
  (\<^verbatim>\<open>src/server.ts\<close>, \<^verbatim>\<open>src/app.tsx\<close>, \<^verbatim>\<open>src/workflows/checkInWorkflow.ts\<close>).

  JavaScript strings are modelled as \<^typ>\<open>string\<close>: a \<^typ>\<open>char\<close> stands for a UTF-16 code
  unit below 256 (the Latin-1 range), and \<open>length\<close> counts code units as \<^verbatim>\<open>.length\<close>
  does. JavaScript numbers are modelled as \<^typ>\<open>real\<close>. A thrown \<^verbatim>\<open>Error\<close> is a value of
  type \<open>error\<close>; a method that can throw returns its outcome together with the agent it
  leaves behind.
\<close>

subsection \<open>String primitives of the host language\<close>

text \<open>\<^verbatim>\<open>toLowerCase\<close> on the Latin-1 range: A..Z and the capitals U+00C0..U+00DE
  (without the multiplication sign U+00D7) move up by 32.\<close>

definition lower_char :: "char \<Rightarrow> char" where
  "lower_char c =
     (let n = of_char c :: nat in
      if (65 \<le> n \<and> n \<le> 90) \<or> (192 \<le> n \<and> n \<le> 222 \<and> n \<noteq> 215)
      then char_of (n + 32) else c)"

definition toLowerCase :: "string \<Rightarrow> string" where
  "toLowerCase s = map lower_char s"

text \<open>White space and line terminators removed by \<^verbatim>\<open>trim\<close>, on the Latin-1 range:
  TAB, LF, VT, FF, CR, SPACE and NBSP.\<close>

definition is_space :: "char \<Rightarrow> bool" where
  "is_space c = (of_char c \<in> {9, 10, 11, 12, 13, 32, 160 :: nat})"

definition trim :: "string \<Rightarrow> string" where
  "trim s = rev (dropWhile is_space (rev (dropWhile is_space s)))"

definition endsWith :: "string \<Rightarrow> string \<Rightarrow> bool" where
  "endsWith s suffix =
     (length suffix \<le> length s \<and> drop (length s - length suffix) s = suffix)"

text \<open>\<^verbatim>\<open>s.split(c)\<close> for a one-character separator; the result is never empty.\<close>

fun split_on :: "char \<Rightarrow> string \<Rightarrow> string list" where
  "split_on c [] = [[]]"
| "split_on c (x # xs) =
     (if x = c then [] # split_on c xs
      else (case split_on c xs of
              p # ps \<Rightarrow> (x # p) # ps
            | [] \<Rightarrow> [[x]]))"

text \<open>Reading element \<open>i\<close> of an array: \<^verbatim>\<open>undefined\<close> (\<open>None\<close>) out of range.\<close>

definition at_index :: "'a list \<Rightarrow> nat \<Rightarrow> 'a option" where
  "at_index xs i = (if i < length xs then Some (xs ! i) else None)"

text \<open>A value inside a template literal: \<^verbatim>\<open>undefined\<close> prints as the word.\<close>

definition template_str :: "string option \<Rightarrow> string" where
  "template_str v = (case v of None \<Rightarrow> ''undefined'' | Some s \<Rightarrow> s)"

definition digit_char :: "nat \<Rightarrow> char" where
  "digit_char d = char_of (48 + d)"

fun digits_rev :: "nat \<Rightarrow> nat \<Rightarrow> string" where
  "digits_rev 0 n = []"
| "digits_rev (Suc fuel) n =
     (if n < 10 then [digit_char n] else digit_char (n mod 10) # digits_rev fuel (n div 10))"

text \<open>Decimal numeral of a natural number (\<^verbatim>\<open>${i + 1}\<close>); \<open>Suc n\<close> digits always suffice.\<close>

definition show_nat :: "nat \<Rightarrow> string" where
  "show_nat n = rev (digits_rev (Suc n) n)"

fun join_with :: "string \<Rightarrow> string list \<Rightarrow> string" where
  "join_with sep [] = []"
| "join_with sep [x] = x"
| "join_with sep (x # y # ys) = x @ sep @ join_with sep (y # ys)"

text \<open>\<^verbatim>\<open>JSON.stringify\<close> of an array of strings: quotation mark, backslash and the control
  characters below U+0020 are escaped, everything else is copied.\<close>

definition hex_char :: "nat \<Rightarrow> char" where
  "hex_char d = (if d < 10 then char_of (48 + d) else char_of (87 + d))"

definition json_escape :: "char \<Rightarrow> string" where
  "json_escape c =
     (let n = of_char c :: nat; bs = char_of (92 :: nat) in
      if n = 34 then [bs, c]
      else if n = 92 then [bs, c]
      else if n = 8 then [bs, CHR ''b'']
      else if n = 12 then [bs, CHR ''f'']
      else if n = 10 then [bs, CHR ''n'']
      else if n = 13 then [bs, CHR ''r'']
      else if n = 9 then [bs, CHR ''t'']
      else if n < 32 then [bs, CHR ''u'', CHR ''0'', CHR ''0'', hex_char (n div 16), hex_char (n mod 16)]
      else [c])"

definition json_quote :: "string \<Rightarrow> string" where
  "json_quote s = char_of (34 :: nat) # concat (map json_escape s) @ [char_of (34 :: nat)]"

definition JSON_stringify :: "string list \<Rightarrow> string" where
  "JSON_stringify xs = ''['' @ join_with '','' (map json_quote xs) @ '']''"

subsection \<open>Data model\<close>

datatype error = Error string

type_synonym 'a result = "error + 'a"

datatype ModelProvider = OpenAI | WorkersAI

record Preferences =
  pf_checkInTime :: string
  pf_timezone :: string
  pf_agentName :: string
  pf_modelProvider :: ModelProvider

record DailyCheckIn =
  ci_date :: string
  ci_emotionalTone :: string
  ci_summary :: string
  ci_recommendations :: "string list"

text \<open>\<^verbatim>\<open>MindGuardState\<close>. The source reads every field through \<^verbatim>\<open>this.state?.field || default\<close>,
  so each field may be absent, and so may the whole state.\<close>

record MindGuardState =
  st_userId :: "string option"
  st_dailyCheckIns :: "DailyCheckIn list option"
  st_lastCheckIn :: "string option"
  st_preferences :: "Preferences option"

text \<open>A row of table \<^verbatim>\<open>check_ins\<close>; column \<^verbatim>\<open>recommendations\<close> holds JSON text.\<close>

record CheckInRow =
  row_id :: string
  row_user_id :: string
  row_date :: string
  row_emotional_tone :: string
  row_summary :: string
  row_recommendations :: string
  row_created_at :: string

text \<open>A row of table \<^verbatim>\<open>user_preferences\<close>; every column but the key may be NULL.\<close>

record PrefRow =
  pr_user_id :: string
  pr_check_in_time :: "string option"
  pr_timezone :: "string option"
  pr_agent_name :: "string option"
  pr_model_provider :: "string option"
  pr_updated_at :: "string option"

text \<open>Modelled from the spec: the job store of the agent framework (\<^verbatim>\<open>this.schedule\<close>,
  \<^verbatim>\<open>this.getSchedules\<close>), which is not part of the repository. A job has an id, the name of
  the callback to invoke, a trigger (absolute time, delay in seconds or cron expression)
  and a payload.\<close>

datatype TriggerSpec = At string | After nat | Cron string

record Schedule =
  sch_id :: string
  sch_callback :: string
  sch_trigger :: TriggerSpec
  sch_payload :: string

text \<open>The agent: its reactive state slot, its two SQL tables (\<open>None\<close>: the table does not
  exist, and every statement on it throws) and its scheduled jobs.\<close>

record Agent =
  state :: "MindGuardState option"
  check_ins :: "CheckInRow list option"
  user_preferences :: "PrefRow list option"
  schedules :: "Schedule list"

definition defaultPreferences :: Preferences where
  "defaultPreferences =
     \<lparr>pf_checkInTime = ''09:00'', pf_timezone = ''UTC'', pf_agentName = ''MindGuard'',
      pf_modelProvider = OpenAI\<rparr>"

text \<open>\<^verbatim>\<open>this.state?.userId || "default"\<close>: an absent or empty id gives the default.\<close>

definition currentUserId :: "Agent \<Rightarrow> string" where
  "currentUserId ag =
     (case state ag of
        None \<Rightarrow> ''default''
      | Some st \<Rightarrow> (case st_userId st of
                     None \<Rightarrow> ''default''
                   | Some u \<Rightarrow> if u = [] then ''default'' else u))"

text \<open>\<^verbatim>\<open>this.state?.preferences\<close>\<close>

definition statePreferences :: "Agent \<Rightarrow> Preferences option" where
  "statePreferences ag = (case state ag of None \<Rightarrow> None | Some st \<Rightarrow> st_preferences st)"

subsection \<open>Check-in ledger: \<^verbatim>\<open>MindGuard.saveCheckIn\<close>\<close>

text \<open>A parameter of type \<^verbatim>\<open>string[]\<close> as it arrives at run time: an array, or some other
  value (which \<^verbatim>\<open>Array.isArray\<close> rejects).\<close>

datatype RecsValue = RecList "string list" | RecObject

definition validTones :: "string list" where
  "validTones = [''positive'', ''neutral'', ''negative'']"

text \<open>\<^verbatim>\<open>new Date().toISOString().split('T')[0]\<close>\<close>

definition isoDate :: "string \<Rightarrow> string" where
  "isoDate now = (case split_on CHR ''T'' now of p # _ \<Rightarrow> p | [] \<Rightarrow> [])"

text \<open>\<^verbatim>\<open>SELECT id FROM check_ins WHERE user_id = ? AND date = ? LIMIT 1\<close>\<close>

definition sql_select_check_in :: "Agent \<Rightarrow> string \<Rightarrow> string \<Rightarrow> string list result" where
  "sql_select_check_in ag userId date =
     (case check_ins ag of
        None \<Rightarrow> Inl (Error ''no such table: check_ins'')
      | Some rows \<Rightarrow>
          Inr (take 1 (map row_id
                 (filter (\<lambda>r. row_user_id r = userId \<and> row_date r = date) rows))))"

text \<open>\<^verbatim>\<open>UPDATE check_ins SET emotional_tone, summary, recommendations, created_at WHERE id = ?\<close>\<close>

definition sql_update_check_in ::
  "Agent \<Rightarrow> string \<Rightarrow> string \<Rightarrow> string \<Rightarrow> string \<Rightarrow> string \<Rightarrow> Agent result" where
  "sql_update_check_in ag rid tone summary recs created =
     (case check_ins ag of
        None \<Rightarrow> Inl (Error ''no such table: check_ins'')
      | Some rows \<Rightarrow>
          Inr (ag\<lparr>check_ins := Some (map (\<lambda>r. if row_id r = rid
                 then r\<lparr>row_emotional_tone := tone, row_summary := summary,
                        row_recommendations := recs, row_created_at := created\<rparr>
                 else r) rows)\<rparr>))"

text \<open>\<^verbatim>\<open>INSERT INTO check_ins (...) VALUES (...)\<close>; column \<^verbatim>\<open>id\<close> is the primary key, so a
  second row with the same id is refused.\<close>

definition sql_insert_check_in :: "Agent \<Rightarrow> CheckInRow \<Rightarrow> Agent result" where
  "sql_insert_check_in ag row =
     (case check_ins ag of
        None \<Rightarrow> Inl (Error ''no such table: check_ins'')
      | Some rows \<Rightarrow>
          if row_id row \<in> set (map row_id rows)
          then Inl (Error ''UNIQUE constraint failed: check_ins.id'')
          else Inr (ag\<lparr>check_ins := Some (rows @ [row])\<rparr>))"

fun findIndex :: "('a \<Rightarrow> bool) \<Rightarrow> 'a list \<Rightarrow> nat option" where
  "findIndex P [] = None"
| "findIndex P (x # xs) =
     (if P x then Some 0 else (case findIndex P xs of None \<Rightarrow> None | Some i \<Rightarrow> Some (Suc i)))"

text \<open>The tone that is written: the argument is replaced by \<^verbatim>\<open>"neutral"\<close> when its lower
  case is not a valid tone, and the result is lower-cased at every use.\<close>

definition storedTone :: "string \<Rightarrow> string" where
  "storedTone emotionalTone =
     toLowerCase (if toLowerCase emotionalTone \<in> set validTones then emotionalTone
                  else ''neutral'')"

text \<open>\<open>checkInId\<close> is the value of \<^verbatim>\<open>generateId()\<close>, \<open>now\<close> the clock reading that gives the
  date and \<open>stamp\<close> the later reading stored in \<^verbatim>\<open>created_at\<close>.\<close>

definition saveCheckIn ::
  "string \<Rightarrow> string \<Rightarrow> string \<Rightarrow> string \<Rightarrow> string \<Rightarrow> RecsValue \<Rightarrow> Agent \<Rightarrow> unit result \<times> Agent"
where
  "saveCheckIn checkInId now stamp emotionalTone summary recommendations ag =
     (if emotionalTone = [] \<or> summary = []
      then (Inl (Error ''Emotional tone and summary are required''), ag)
      else (case recommendations of
        RecObject \<Rightarrow> (Inl (Error ''Recommendations must be an array''), ag)
      | RecList recs \<Rightarrow>
         (let tone = storedTone emotionalTone;
              userId = currentUserId ag;
              date = isoDate now
          in (case sql_select_check_in ag userId date of
                Inl e \<Rightarrow> (Inl e, ag)
              | Inr existingCheckIn \<Rightarrow>
                 (case (case existingCheckIn of
                          existing # _ \<Rightarrow>
                            sql_update_check_in ag existing tone summary (JSON_stringify recs) stamp
                        | [] \<Rightarrow>
                            sql_insert_check_in ag
                              \<lparr>row_id = checkInId, row_user_id = userId, row_date = date,
                               row_emotional_tone = tone, row_summary = summary,
                               row_recommendations = JSON_stringify recs,
                               row_created_at = stamp\<rparr>) of
                    Inl e \<Rightarrow> (Inl e, ag)
                  | Inr ag1 \<Rightarrow>
                     (let updatedCheckIns =
                            (case state ag1 of None \<Rightarrow> []
                             | Some st \<Rightarrow> (case st_dailyCheckIns st of None \<Rightarrow> [] | Some cs \<Rightarrow> cs));
                          existingIndex = findIndex (\<lambda>ci. ci_date ci = date) updatedCheckIns;
                          checkInEntry = \<lparr>ci_date = date, ci_emotionalTone = tone,
                                          ci_summary = summary, ci_recommendations = recs\<rparr>;
                          updatedCheckIns' =
                            (case existingIndex of
                               Some i \<Rightarrow> updatedCheckIns[i := checkInEntry]
                             | None \<Rightarrow> updatedCheckIns @ [checkInEntry])
                      in (Inr (),
                          ag1\<lparr>state := Some
                            \<lparr>st_userId = Some userId,
                             st_dailyCheckIns = Some updatedCheckIns',
                             st_lastCheckIn = Some date,
                             st_preferences = Some
                               (case statePreferences ag1 of
                                  None \<Rightarrow> defaultPreferences
                                | Some p \<Rightarrow> p)\<rparr>\<rparr>)))))))"

text \<open>The check-in records of a user on a day, and the one a \<^verbatim>\<open>SELECT ... LIMIT 1\<close>
  reads back.\<close>

definition recordsFor :: "Agent \<Rightarrow> string \<Rightarrow> string \<Rightarrow> CheckInRow list" where
  "recordsFor ag userId date =
     (case check_ins ag of
        None \<Rightarrow> []
      | Some rows \<Rightarrow> filter (\<lambda>r. row_user_id r = userId \<and> row_date r = date) rows)"

definition rowCount :: "Agent \<Rightarrow> nat" where
  "rowCount ag = (case check_ins ag of None \<Rightarrow> 0 | Some rows \<Rightarrow> length rows)"

subsection \<open>Scheduler: \<^verbatim>\<open>MindGuard.scheduleDailyCheckIn\<close>\<close>

definition in_range :: "char \<Rightarrow> char \<Rightarrow> char \<Rightarrow> bool" where
  "in_range c lo hi = ((of_char lo :: nat) \<le> of_char c \<and> (of_char c :: nat) \<le> of_char hi)"

definition minutes_ok :: "char \<Rightarrow> char \<Rightarrow> char \<Rightarrow> bool" where
  "minutes_ok c m1 m2 =
     (c = CHR '':'' \<and> in_range m1 CHR ''0'' CHR ''5'' \<and> in_range m2 CHR ''0'' CHR ''9'')"

text \<open>\<^verbatim>\<open>/^([0-1]?[0-9]|2[0-3]):[0-5][0-9]$/.test(s)\<close>: the pattern is anchored at both ends,
  so it accepts exactly the strings \<open>H:MM\<close> with one hour digit and \<open>HH:MM\<close> with the hour
  in 00..19 or 20..23.\<close>

fun timeRegex_test :: "string \<Rightarrow> bool" where
  "timeRegex_test [h, c, m1, m2] = (in_range h CHR ''0'' CHR ''9'' \<and> minutes_ok c m1 m2)"
| "timeRegex_test [h1, h2, c, m1, m2] =
     (((in_range h1 CHR ''0'' CHR ''1'' \<and> in_range h2 CHR ''0'' CHR ''9'')
        \<or> (h1 = CHR ''2'' \<and> in_range h2 CHR ''0'' CHR ''3''))
      \<and> minutes_ok c m1 m2)"
| "timeRegex_test _ = False"

definition getSchedules :: "Agent \<Rightarrow> Schedule list" where
  "getSchedules ag = schedules ag"

text \<open>Modelled from the spec: \<^verbatim>\<open>this.schedule(when, callback, payload)\<close> of the agent
  framework with a string \<open>when\<close>, which registers a recurring cron job; \<open>newId\<close> is the id
  the framework gives it.\<close>

definition schedule :: "string \<Rightarrow> string \<Rightarrow> string \<Rightarrow> string \<Rightarrow> Agent \<Rightarrow> Agent" where
  "schedule newId when callback payload ag =
     ag\<lparr>schedules := schedules ag @
        [\<lparr>sch_id = newId, sch_callback = callback, sch_trigger = Cron when,
          sch_payload = payload\<rparr>]\<rparr>"

text \<open>\<^verbatim>\<open>this.state?.preferences?.checkInTime || "09:00"\<close>\<close>

definition currentCheckInTime :: "Agent \<Rightarrow> string" where
  "currentCheckInTime ag =
     (case statePreferences ag of
        None \<Rightarrow> ''09:00''
      | Some p \<Rightarrow> if pf_checkInTime p = [] then ''09:00'' else pf_checkInTime p)"

text \<open>\<^verbatim>\<open>src/server.ts\<close>: the cron pattern is the constant left in for testing.\<close>

definition scheduleDailyCheckIn :: "string \<Rightarrow> Agent \<Rightarrow> Agent" where
  "scheduleDailyCheckIn newId ag =
     (let checkInTime = currentCheckInTime ag in
      if \<not> timeRegex_test checkInTime then ag
      else
        (let cronPattern = ''* * * * *'';
             existingSchedules = getSchedules ag;
             hasDailyCheckIn =
               list_ex (\<lambda>s. sch_callback s = ''executeDailyCheckIn'') existingSchedules
         in if \<not> hasDailyCheckIn
            then schedule newId cronPattern ''executeDailyCheckIn'' ''Daily wellness check-in'' ag
            else ag))"

text \<open>The earlier variant of the same method (the two older copies of the server file),
  which derives the pattern from the time.\<close>

definition scheduleDailyCheckIn_earlier :: "string \<Rightarrow> Agent \<Rightarrow> Agent" where
  "scheduleDailyCheckIn_earlier newId ag =
     (let checkInTime = currentCheckInTime ag in
      if \<not> timeRegex_test checkInTime then ag
      else
        (let parts = split_on CHR '':'' checkInTime;
             hour = at_index parts 0;
             minute = at_index parts 1;
             cronPattern = template_str minute @ '' '' @ template_str hour @ '' * * *'';
             existingSchedules = getSchedules ag;
             hasDailyCheckIn =
               list_ex (\<lambda>s. sch_callback s = ''executeDailyCheckIn'') existingSchedules
         in if \<not> hasDailyCheckIn
            then schedule newId cronPattern ''executeDailyCheckIn'' ''Daily wellness check-in'' ag
            else ag))"

definition dailyJobs :: "Agent \<Rightarrow> Schedule list" where
  "dailyJobs ag = filter (\<lambda>s. sch_callback s = ''executeDailyCheckIn'') (getSchedules ag)"

subsection \<open>Preference store: \<^verbatim>\<open>getAgentName\<close> and \<^verbatim>\<open>updateAgentName\<close>\<close>

text \<open>\<^verbatim>\<open>SELECT agent_name FROM user_preferences WHERE user_id = ? LIMIT 1\<close>\<close>

definition sql_select_agent_name :: "Agent \<Rightarrow> string \<Rightarrow> string option list result" where
  "sql_select_agent_name ag userId =
     (case user_preferences ag of
        None \<Rightarrow> Inl (Error ''no such table: user_preferences'')
      | Some rows \<Rightarrow>
          Inr (take 1 (map pr_agent_name (filter (\<lambda>r. pr_user_id r = userId) rows))))"

text \<open>The name held in the state slot, when it is there and not empty.\<close>

definition stateAgentName :: "Agent \<Rightarrow> string option" where
  "stateAgentName ag =
     (case statePreferences ag of
        None \<Rightarrow> None
      | Some p \<Rightarrow> if pf_agentName p = [] then None else Some (pf_agentName p))"

text \<open>The name of the persisted row, when the query answers with a row whose name is
  neither NULL nor empty.\<close>

definition persistedAgentName :: "Agent \<Rightarrow> string option" where
  "persistedAgentName ag =
     (case sql_select_agent_name ag (currentUserId ag) of
        Inl e \<Rightarrow> None
      | Inr [] \<Rightarrow> None
      | Inr (None # _) \<Rightarrow> None
      | Inr (Some n # _) \<Rightarrow> if n = [] then None else Some n)"

text \<open>The body of the outer \<^verbatim>\<open>try\<close>; the inner \<^verbatim>\<open>try\<close> around the query swallows its error
  and falls through to the default.\<close>

definition getAgentName_body :: "Agent \<Rightarrow> string result" where
  "getAgentName_body ag =
     (case stateAgentName ag of
        Some n \<Rightarrow> Inr n
      | None \<Rightarrow>
         (let userId = currentUserId ag;
              inner = (case sql_select_agent_name ag userId of
                         Inl e \<Rightarrow> Inl e
                       | Inr result \<Rightarrow>
                          (case result of
                             Some n # _ \<Rightarrow> if n \<noteq> [] then Inr (Some n) else Inr None
                           | _ \<Rightarrow> Inr None))
          in (case inner of
                Inr (Some n) \<Rightarrow> Inr n
              | Inr None \<Rightarrow> Inr ''MindGuard''
              | Inl e \<Rightarrow> Inr ''MindGuard'')))"

definition getAgentName :: "Agent \<Rightarrow> string result" where
  "getAgentName ag =
     (case getAgentName_body ag of
        Inr n \<Rightarrow> Inr n
      | Inl e \<Rightarrow> Inr ''MindGuard'')"

text \<open>\<^verbatim>\<open>INSERT INTO user_preferences (user_id, agent_name, updated_at) ... ON CONFLICT(user_id)
  DO UPDATE SET agent_name, updated_at\<close>\<close>

definition sql_upsert_agent_name :: "Agent \<Rightarrow> string \<Rightarrow> string \<Rightarrow> string \<Rightarrow> Agent result" where
  "sql_upsert_agent_name ag userId name now =
     (case user_preferences ag of
        None \<Rightarrow> Inl (Error ''no such table: user_preferences'')
      | Some rows \<Rightarrow>
          if list_ex (\<lambda>r. pr_user_id r = userId) rows
          then Inr (ag\<lparr>user_preferences := Some (map (\<lambda>r. if pr_user_id r = userId
                      then r\<lparr>pr_agent_name := Some name, pr_updated_at := Some now\<rparr>
                      else r) rows)\<rparr>)
          else Inr (ag\<lparr>user_preferences := Some (rows @
                      [\<lparr>pr_user_id = userId, pr_check_in_time = None, pr_timezone = None,
                        pr_agent_name = Some name, pr_model_provider = None,
                        pr_updated_at = Some now\<rparr>])\<rparr>))"

definition updateAgentName :: "string \<Rightarrow> string \<Rightarrow> Agent \<Rightarrow> unit result \<times> Agent" where
  "updateAgentName newName now ag =
     (if newName = [] \<or> length (trim newName) = 0
      then (Inl (Error ''Agent name cannot be empty''), ag)
      else if length newName > 50
      then (Inl (Error ''Agent name must be 50 characters or less''), ag)
      else
        (let userId = currentUserId ag;
             trimmedName = trim newName
         in (case sql_upsert_agent_name ag userId trimmedName now of
               Inl e \<Rightarrow> (Inl e, ag)
             | Inr ag1 \<Rightarrow>
                (let old = (case state ag1 of
                              None \<Rightarrow> \<lparr>st_userId = None, st_dailyCheckIns = None,
                                        st_lastCheckIn = None, st_preferences = None\<rparr>
                            | Some st \<Rightarrow> st);
                     prefs = (case statePreferences ag1 of
                                None \<Rightarrow> defaultPreferences
                              | Some p \<Rightarrow> p)
                 in (Inr (),
                     ag1\<lparr>state := Some
                       (old\<lparr>st_preferences := Some (prefs\<lparr>pf_agentName := trimmedName\<rparr>)\<rparr>)\<rparr>)))))"

subsection \<open>Recommendation selector: tool \<^verbatim>\<open>getMindfulnessRecommendations\<close>\<close>

text \<open>The input schema of the tool admits the three tones only
  (\<^verbatim>\<open>z.enum(["positive", "neutral", "negative"])\<close>) and an optional number.\<close>

datatype Tone = Positive | Neutral | Negative

definition recommendations_positive :: "string list" where
  "recommendations_positive =
    [''Practice gratitude journaling - write down 3 things you're grateful for today'',
     ''Share your positive energy with others - reach out to a friend or loved one'',
     ''Set new goals while feeling motivated - channel this energy into something meaningful'',
     ''Practice mindful appreciation - take a moment to fully experience this positive feeling'']"

definition recommendations_neutral :: "string list" where
  "recommendations_neutral =
    [''Take a mindful walk - focus on your breathing and surroundings'',
     ''Practice deep breathing exercises - 4-7-8 technique (inhale 4, hold 7, exhale 8)'',
     ''Try a new hobby or activity - explore something that interests you'',
     ''Practice body scan meditation - notice how each part of your body feels'']"

definition recommendations_negative :: "string list" where
  "recommendations_negative =
    [''Practice 4-7-8 breathing technique - inhale for 4, hold for 7, exhale for 8'',
     ''Write down your feelings in a journal - express what you're experiencing'',
     ''Try progressive muscle relaxation - tense and release each muscle group'',
     ''Consider talking to a trusted friend or professional - you don't have to go through this alone'',
     ''Practice self-compassion - be kind to yourself, acknowledge that difficult emotions are valid'']"

definition professional_support :: string where
  "professional_support =
    ''Consider reaching out to a mental health professional or crisis support line if needed''"

text \<open>The table literal is built anew inside every call of \<^verbatim>\<open>execute\<close>, so the
  \<^verbatim>\<open>push\<close> of the source changes the array of that call only.\<close>

definition recommendations :: "Tone \<Rightarrow> string list" where
  "recommendations t =
     (case t of Positive \<Rightarrow> recommendations_positive
              | Neutral \<Rightarrow> recommendations_neutral
              | Negative \<Rightarrow> recommendations_negative)"

definition getMindfulnessRecommendations :: "Tone \<Rightarrow> real option \<Rightarrow> string list" where
  "getMindfulnessRecommendations emotionalTone intensity_opt =
     (let intensity = (case intensity_opt of None \<Rightarrow> 5 | Some i \<Rightarrow> i);
          toneRecommendations = recommendations emotionalTone
      in if intensity \<ge> 7 \<and> emotionalTone = Negative
         then toneRecommendations @ [professional_support]
         else toneRecommendations)"

subsection \<open>HTTP messages between the workflow and the agent\<close>

text \<open>The JSON objects that travel in requests and responses, with the keys the source
  reads; an absent key is \<open>None\<close>.\<close>

record JsonBody =
  j_message :: "string option"
  j_emotionalTone :: "string option"
  j_intensity :: "real option"
  j_summary :: "string option"
  j_recommendations :: "RecsValue option"
  j_tone :: "string option"

definition emptyJson :: JsonBody where
  "emptyJson =
     \<lparr>j_message = None, j_emotionalTone = None, j_intensity = None, j_summary = None,
      j_recommendations = None, j_tone = None\<rparr>"

record Request =
  url :: string
  http_method :: string
  body :: JsonBody

text \<open>\<open>json = None\<close>: the body is not JSON, and \<^verbatim>\<open>response.json()\<close> throws.\<close>

record Response =
  status :: nat
  statusText :: string
  json :: "JsonBody option"

definition ok :: "Response \<Rightarrow> bool" where
  "ok r = (200 \<le> status r \<and> status r \<le> 299)"

subsection \<open>Endpoint \<^verbatim>\<open>POST /internal/get-recommendations\<close> of \<^verbatim>\<open>MindGuard.onRequest\<close>\<close>

definition endpoint_positive :: "string list" where
  "endpoint_positive =
    [''Practice gratitude journaling - write down 3 things you're grateful for today'',
     ''Share your positive energy with others - reach out to a friend or loved one'',
     ''Set new goals while feeling motivated - channel this energy into something meaningful'']"

definition endpoint_neutral :: "string list" where
  "endpoint_neutral =
    [''Take a mindful walk - focus on your breathing and surroundings'',
     ''Practice deep breathing exercises - 4-7-8 technique'',
     ''Try a new hobby or activity - explore something that interests you'']"

definition endpoint_negative :: "string list" where
  "endpoint_negative =
    [''Practice 4-7-8 breathing technique - inhale for 4, hold for 7, exhale for 8'',
     ''Write down your feelings in a journal - express what you're experiencing'',
     ''Consider talking to a trusted friend or professional - you don't have to go through this alone'']"

text \<open>What the property read \<^verbatim>\<open>recommendations[toneKey]\<close> finds. The table is an object
  literal, so besides its three own keys a read finds the members it inherits from
  \<^verbatim>\<open>Object.prototype\<close>; of those only \<^verbatim>\<open>constructor\<close> and \<^verbatim>\<open>__proto__\<close> are spelt in lower
  case and can be the result of \<^verbatim>\<open>toLowerCase\<close>.\<close>

datatype Member = OwnList "string list" | ObjectConstructor | ObjectPrototype

definition endpoint_recommendations :: "string \<Rightarrow> Member option" where
  "endpoint_recommendations toneKey =
     (if toneKey = ''positive'' then Some (OwnList endpoint_positive)
      else if toneKey = ''neutral'' then Some (OwnList endpoint_neutral)
      else if toneKey = ''negative'' then Some (OwnList endpoint_negative)
      else if toneKey = ''constructor'' then Some ObjectConstructor
      else if toneKey = ''__proto__'' then Some ObjectPrototype
      else None)"

text \<open>\<^verbatim>\<open>Response.json({ recommendations: recs })\<close>: an array is sent as it is, a function is
  left out of the object, and \<^verbatim>\<open>Object.prototype\<close> is sent as an empty object.\<close>

definition json_of_member :: "Member \<Rightarrow> RecsValue option" where
  "json_of_member m =
     (case m of OwnList xs \<Rightarrow> Some (RecList xs)
              | ObjectConstructor \<Rightarrow> None
              | ObjectPrototype \<Rightarrow> Some RecObject)"

text \<open>The handler of the route. The request body has the type the source casts it to
  (\<^verbatim>\<open>{ emotionalTone?: string; intensity?: number }\<close>); on such a body no statement of the
  \<^verbatim>\<open>try\<close> block throws.\<close>

definition get_recommendations :: "JsonBody \<Rightarrow> Response" where
  "get_recommendations reqBody =
     (let emotionalTone = (case j_emotionalTone reqBody of None \<Rightarrow> ''neutral'' | Some t \<Rightarrow> t);
          toneKey = toLowerCase emotionalTone;
          recs = (case endpoint_recommendations toneKey of
                    Some m \<Rightarrow> m
                  | None \<Rightarrow> OwnList endpoint_neutral)
      in \<lparr>status = 200, statusText = [],
          json = Some (emptyJson\<lparr>j_recommendations := json_of_member recs\<rparr>)\<rparr>)"

subsection \<open>Check-in workflow: \<^verbatim>\<open>CheckInWorkflow.run\<close>\<close>

record CheckInWorkflowInput =
  in_userId :: string
  in_agentId :: string
  in_checkInTime :: string
  in_workerUrl :: "string option"

text \<open>\<^verbatim>\<open>fetch\<close>, as the workflow sees it: the request changes the world outside the workflow
  (type \<open>'w\<close>) and is answered by a response, or the call itself throws.\<close>

type_synonym 'w fetch = "Request \<Rightarrow> 'w \<Rightarrow> Response result \<times> 'w"

text \<open>A \<^verbatim>\<open>fetch\<close> that also keeps the list of the requests made, in order.\<close>

definition recording :: "'w fetch \<Rightarrow> (Request list \<times> 'w) fetch" where
  "recording fetch req lw =
     (case lw of (made, w) \<Rightarrow>
        (case fetch req w of (r, w') \<Rightarrow> (r, (made @ [req], w'))))"

text \<open>The two pictographs of the message texts lie outside the Latin-1 range; they are
  written as the bytes of their UTF-8 encoding.\<close>

definition sunrise :: string where
  "sunrise = map char_of [240, 159, 140, 133 :: nat]"

definition blue_heart :: string where
  "blue_heart = map char_of [240, 159, 146, 153 :: nat]"

definition newline :: string where
  "newline = [char_of (10 :: nat)]"

definition checkInMessage :: string where
  "checkInMessage =
     ''Good morning! '' @ sunrise @
     '' It's time for your daily check-in. How are you feeling today? Take a moment to reflect on your emotional state and share what's on your mind.''"

definition reminderMessage :: string where
  "reminderMessage =
     ''I noticed you haven't responded to today's check-in. That's okay! Feel free to share how you're feeling whenever you're ready. I'm here for you. '' @ blue_heart"

definition defaultWorkerUrl :: string where
  "defaultWorkerUrl = ''https://mindguard.nkemkaomeiza.workers.dev''"

definition endpointUrl :: "string \<Rightarrow> string \<Rightarrow> string \<Rightarrow> string" where
  "endpointUrl workerUrl agentId route =
     workerUrl @ ''/agents/mindguard/'' @ agentId @ ''/internal/'' @ route"

definition post :: "string \<Rightarrow> JsonBody \<Rightarrow> Request" where
  "post endpoint b = \<lparr>url = endpoint, http_method = ''POST'', body = b\<rparr>"

text \<open>Modelled from the spec: \<^verbatim>\<open>step.waitForEvent(name, {timeout})\<close> of the workflow runtime,
  which suspends until the event or the timeout, whichever is first. \<open>arrival\<close> is the
  time in seconds after the registration at which the reply event comes, with its text;
  \<open>None\<close> when it never comes. The source takes a result that is not truthy for the
  timeout.\<close>

definition waitForEvent :: "(nat \<times> string) option \<Rightarrow> nat \<Rightarrow> string option" where
  "waitForEvent arrival timeout =
     (case arrival of
        None \<Rightarrow> None
      | Some (t, response) \<Rightarrow> if t < timeout then Some response else None)"

definition waitTimeout :: nat where
  "waitTimeout = 24 * 60 * 60"

text \<open>Step 1, \<^verbatim>\<open>send-check-in-message\<close>.\<close>

definition sendCheckInRequest :: "string \<Rightarrow> string \<Rightarrow> Request" where
  "sendCheckInRequest workerUrl agentId =
     post (endpointUrl workerUrl agentId ''send-check-in-message'')
       (emptyJson\<lparr>j_message := Some checkInMessage\<rparr>)"

definition step_send_check_in_message ::
  "'w fetch \<Rightarrow> string \<Rightarrow> string \<Rightarrow> 'w \<Rightarrow> unit result \<times> 'w" where
  "step_send_check_in_message fetch workerUrl agentId w =
     (case fetch (sendCheckInRequest workerUrl agentId) w of
        (Inl e, w') \<Rightarrow> (Inl e, w')
      | (Inr response, w') \<Rightarrow>
          if \<not> ok response
          then (Inl (Error (''Failed to send check-in message: '' @ statusText response)), w')
          else (Inr (), w'))"

text \<open>Step 3, \<^verbatim>\<open>analyze-emotional-tone\<close>: the step returns the JSON of the response.\<close>

definition analyzeRequest :: "string \<Rightarrow> string \<Rightarrow> string \<Rightarrow> Request" where
  "analyzeRequest workerUrl agentId userResponseText =
     post (endpointUrl workerUrl agentId ''analyze-tone'')
       (emptyJson\<lparr>j_message := Some userResponseText\<rparr>)"

definition step_analyze_emotional_tone ::
  "'w fetch \<Rightarrow> string \<Rightarrow> string \<Rightarrow> string \<Rightarrow> 'w \<Rightarrow> JsonBody result \<times> 'w" where
  "step_analyze_emotional_tone fetch workerUrl agentId userResponseText w =
     (case fetch (analyzeRequest workerUrl agentId userResponseText) w of
        (Inl e, w') \<Rightarrow> (Inl e, w')
      | (Inr response, w') \<Rightarrow>
          if \<not> ok response
          then (Inl (Error (''Failed to analyze tone: '' @ statusText response)), w')
          else (case json response of
                  None \<Rightarrow> (Inl (Error ''Unexpected token in JSON''), w')
                | Some data \<Rightarrow> (Inr data, w')))"

text \<open>Step 4, \<^verbatim>\<open>generate-recommendations\<close>; \<^verbatim>\<open>analysis.intensity || 5\<close> replaces a missing
  or zero intensity.\<close>

definition recommendationsRequest :: "string \<Rightarrow> string \<Rightarrow> JsonBody \<Rightarrow> Request" where
  "recommendationsRequest workerUrl agentId analysis =
     post (endpointUrl workerUrl agentId ''get-recommendations'')
       (emptyJson\<lparr>j_emotionalTone := j_tone analysis,
                  j_intensity := Some (case j_intensity analysis of
                                         None \<Rightarrow> 5
                                       | Some i \<Rightarrow> if i = 0 then 5 else i)\<rparr>)"

definition step_generate_recommendations ::
  "'w fetch \<Rightarrow> string \<Rightarrow> string \<Rightarrow> JsonBody \<Rightarrow> 'w \<Rightarrow> JsonBody result \<times> 'w" where
  "step_generate_recommendations fetch workerUrl agentId analysis w =
     (case fetch (recommendationsRequest workerUrl agentId analysis) w of
        (Inl e, w') \<Rightarrow> (Inl e, w')
      | (Inr response, w') \<Rightarrow>
          if \<not> ok response
          then (Inl (Error (''Failed to get recommendations: '' @ statusText response)), w')
          else (case json response of
                  None \<Rightarrow> (Inl (Error ''Unexpected token in JSON''), w')
                | Some data \<Rightarrow> (Inr data, w')))"

text \<open>Step 5, \<^verbatim>\<open>save-check-in\<close>.\<close>

definition saveRequest :: "string \<Rightarrow> string \<Rightarrow> JsonBody \<Rightarrow> JsonBody \<Rightarrow> string \<Rightarrow> Request" where
  "saveRequest workerUrl agentId analysis recommendationsResult userResponseText =
     (let summary = ''Daily check-in: User reported feeling '' @ template_str (j_tone analysis)
                    @ ''. Response: '' @ take 200 userResponseText @ ''...''
      in post (endpointUrl workerUrl agentId ''save-check-in'')
           (emptyJson\<lparr>j_emotionalTone := j_tone analysis,
                      j_summary := Some summary,
                      j_recommendations := Some
                        (case j_recommendations recommendationsResult of
                           None \<Rightarrow> RecList []
                         | Some v \<Rightarrow> v)\<rparr>))"

definition step_save_check_in ::
  "'w fetch \<Rightarrow> string \<Rightarrow> string \<Rightarrow> JsonBody \<Rightarrow> JsonBody \<Rightarrow> string \<Rightarrow> 'w \<Rightarrow> unit result \<times> 'w"
where
  "step_save_check_in fetch workerUrl agentId analysis recommendationsResult userResponseText w =
     (case fetch (saveRequest workerUrl agentId analysis recommendationsResult userResponseText) w of
        (Inl e, w') \<Rightarrow> (Inl e, w')
      | (Inr response, w') \<Rightarrow>
          if \<not> ok response
          then (Inl (Error (''Failed to save check-in: '' @ statusText response)), w')
          else (Inr (), w'))"

text \<open>Step 6, \<^verbatim>\<open>send-summary\<close>. The recommendations are numbered from 1; a value that is
  no array has no \<^verbatim>\<open>map\<close>, and the call throws before anything is sent.\<close>

fun numbered :: "nat \<Rightarrow> string list \<Rightarrow> string list" where
  "numbered i [] = []"
| "numbered i (r # rs) = (show_nat (i + 1) @ ''. '' @ r) # numbered (Suc i) rs"

definition summaryMessage :: "JsonBody \<Rightarrow> JsonBody \<Rightarrow> string result" where
  "summaryMessage analysis recommendationsResult =
     (case (case j_recommendations recommendationsResult of
              None \<Rightarrow> Inr ''undefined''
            | Some (RecList rs) \<Rightarrow> Inr (join_with newline (numbered 0 rs))
            | Some RecObject \<Rightarrow> Inl (Error ''map is not a function'')) of
        Inl e \<Rightarrow> Inl e
      | Inr listed \<Rightarrow>
          Inr (''Thank you for your check-in! Based on your response, I've noted that you're feeling ''
               @ template_str (j_tone analysis)
               @ ''. Here are some personalized recommendations:'' @ newline @ newline
               @ listed @ newline @ newline @ ''Take care! '' @ blue_heart))"

definition step_send_summary ::
  "'w fetch \<Rightarrow> string \<Rightarrow> string \<Rightarrow> JsonBody \<Rightarrow> JsonBody \<Rightarrow> 'w \<Rightarrow> unit result \<times> 'w" where
  "step_send_summary fetch workerUrl agentId analysis recommendationsResult w =
     (case summaryMessage analysis recommendationsResult of
        Inl e \<Rightarrow> (Inl e, w)
      | Inr message \<Rightarrow>
         (case fetch (post (endpointUrl workerUrl agentId ''send-message'')
                        (emptyJson\<lparr>j_message := Some message\<rparr>)) w of
            (Inl e, w') \<Rightarrow> (Inl e, w')
          | (Inr response, w') \<Rightarrow>
              if \<not> ok response
              then (Inl (Error (''Failed to send summary: '' @ statusText response)), w')
              else (Inr (), w')))"

text \<open>The step of the timeout branch, \<^verbatim>\<open>handle-timeout\<close>: the response is not looked at.\<close>

definition reminderRequest :: "string \<Rightarrow> string \<Rightarrow> Request" where
  "reminderRequest workerUrl agentId =
     post (endpointUrl workerUrl agentId ''send-message'')
       (emptyJson\<lparr>j_message := Some reminderMessage\<rparr>)"

definition step_handle_timeout :: "'w fetch \<Rightarrow> string \<Rightarrow> string \<Rightarrow> 'w \<Rightarrow> unit result \<times> 'w" where
  "step_handle_timeout fetch workerUrl agentId w =
     (case fetch (reminderRequest workerUrl agentId) w of
        (Inl e, w') \<Rightarrow> (Inl e, w')
      | (Inr response, w') \<Rightarrow> (Inr (), w'))"

text \<open>\<^verbatim>\<open>input.workerUrl || "https://mindguard.nkemkaomeiza.workers.dev"\<close>\<close>

definition workerUrlOf :: "CheckInWorkflowInput \<Rightarrow> string" where
  "workerUrlOf input =
     (case in_workerUrl input of
        None \<Rightarrow> defaultWorkerUrl
      | Some u \<Rightarrow> if u = [] then defaultWorkerUrl else u)"

text \<open>The steps after a reply, in the order of the source; a step that throws ends the
  run with its error.\<close>

definition run_reply ::
  "'w fetch \<Rightarrow> string \<Rightarrow> string \<Rightarrow> string \<Rightarrow> 'w \<Rightarrow> unit result \<times> 'w" where
  "run_reply fetch workerUrl agentId userResponseText w =
     (case step_analyze_emotional_tone fetch workerUrl agentId userResponseText w of
        (Inl e, w1) \<Rightarrow> (Inl e, w1)
      | (Inr analysis, w1) \<Rightarrow>
         (case step_generate_recommendations fetch workerUrl agentId analysis w1 of
            (Inl e, w2) \<Rightarrow> (Inl e, w2)
          | (Inr recommendationsResult, w2) \<Rightarrow>
             (case step_save_check_in fetch workerUrl agentId analysis recommendationsResult
                     userResponseText w2 of
                (Inl e, w3) \<Rightarrow> (Inl e, w3)
              | (Inr u, w3) \<Rightarrow>
                  step_send_summary fetch workerUrl agentId analysis recommendationsResult w3)))"

definition run ::
  "'w fetch \<Rightarrow> CheckInWorkflowInput \<Rightarrow> (nat \<times> string) option \<Rightarrow> 'w \<Rightarrow> unit result \<times> 'w" where
  "run fetch input arrival w =
     (let agentId = in_agentId input;
          workerUrl = workerUrlOf input
      in (case step_send_check_in_message fetch workerUrl agentId w of
            (Inl e, w1) \<Rightarrow> (Inl e, w1)
          | (Inr u, w1) \<Rightarrow>
             (case waitForEvent arrival waitTimeout of
                Some userResponseText \<Rightarrow> run_reply fetch workerUrl agentId userResponseText w1
              | None \<Rightarrow> step_handle_timeout fetch workerUrl agentId w1)))"

text \<open>The request of a run that writes to the ledger is the one to route
  \<^verbatim>\<open>save-check-in\<close>, whose handler calls \<^verbatim>\<open>saveCheckIn\<close>.\<close>

definition isLedgerWrite :: "Request \<Rightarrow> bool" where
  "isLedgerWrite req = endsWith (url req) ''/internal/save-check-in''"

definition isReminder :: "Request \<Rightarrow> bool" where
  "isReminder req =
     (endsWith (url req) ''/internal/send-message'' \<and> j_message (body req) = Some reminderMessage)"

text \<open>The recommendations carried by a response of the endpoint.\<close>

definition responseRecommendations :: "Response \<Rightarrow> RecsValue option" where
  "responseRecommendations r = (case json r of None \<Rightarrow> None | Some j \<Rightarrow> j_recommendations j)"

subsection \<open>Sample agents and inputs\<close>

text \<open>An agent right after \<^verbatim>\<open>initializeDatabase\<close> on first start (no state yet, both tables
  empty, no job), and an agent whose tables do not exist.\<close>

definition freshAgent :: Agent where
  "freshAgent = \<lparr>state = None, check_ins = Some [], user_preferences = Some [], schedules = []\<rparr>"

definition uninitialisedAgent :: Agent where
  "uninitialisedAgent =
     \<lparr>state = None, check_ins = None, user_preferences = None, schedules = []\<rparr>"

text \<open>A name of 51 characters that is one character long after trimming.\<close>

definition paddedName :: string where
  "paddedName = ''A'' @ replicate 50 CHR '' ''"

subsection \<open>Notions used to state the ledger properties\<close>

text \<open>The entries of the in-memory view of the check-ins.\<close>

definition memoryEntries :: "Agent \<Rightarrow> DailyCheckIn list" where
  "memoryEntries ag =
     (case state ag of
        None \<Rightarrow> []
      | Some st \<Rightarrow> (case st_dailyCheckIns st of None \<Rightarrow> [] | Some cs \<Rightarrow> cs))"

text \<open>The row a call inserts, the change it makes to the row with a given id, and the test
  that a row belongs to the current user and the day of the call.\<close>

definition newRow ::
  "string \<Rightarrow> string \<Rightarrow> string \<Rightarrow> string \<Rightarrow> string \<Rightarrow> string list \<Rightarrow> Agent \<Rightarrow> CheckInRow" where
  "newRow cid now stamp tone summary rs ag =
     \<lparr>row_id = cid, row_user_id = currentUserId ag, row_date = isoDate now,
      row_emotional_tone = storedTone tone, row_summary = summary,
      row_recommendations = JSON_stringify rs, row_created_at = stamp\<rparr>"

definition rewrite ::
  "string \<Rightarrow> string \<Rightarrow> string \<Rightarrow> string \<Rightarrow> string list \<Rightarrow> CheckInRow \<Rightarrow> CheckInRow" where
  "rewrite rid stamp tone summary rs r =
     (if row_id r = rid
      then r\<lparr>row_emotional_tone := storedTone tone, row_summary := summary,
             row_recommendations := JSON_stringify rs, row_created_at := stamp\<rparr>
      else r)"

definition sameDay :: "Agent \<Rightarrow> string \<Rightarrow> CheckInRow \<Rightarrow> bool" where
  "sameDay ag now r = (row_user_id r = currentUserId ag \<and> row_date r = isoDate now)"

text \<open>Sample calls: two check-ins on 2 January, and on 3 January one with a tone that is
  not valid and one with an empty tone.\<close>

definition morningCall :: "Agent \<Rightarrow> unit result \<times> Agent" where
  "morningCall ag =
     saveCheckIn ''id1'' ''2025-01-02T09:00:00.000Z'' ''2025-01-02T09:00:00.005Z''
       ''Negative'' ''rough start'' (RecList [''Write down your feelings'']) ag"

definition eveningCall :: "Agent \<Rightarrow> unit result \<times> Agent" where
  "eveningCall ag =
     saveCheckIn ''id2'' ''2025-01-02T21:30:00.000Z'' ''2025-01-02T21:30:00.005Z''
       ''POSITIVE'' ''better now'' (RecList [''Take a mindful walk'']) ag"

definition bogusCall :: "Agent \<Rightarrow> unit result \<times> Agent" where
  "bogusCall ag =
     saveCheckIn ''id3'' ''2025-01-03T09:00:00.000Z'' ''2025-01-03T09:00:00.005Z''
       ''bogus'' ''fine'' (RecList []) ag"

definition emptyToneCall :: "Agent \<Rightarrow> unit result \<times> Agent" where
  "emptyToneCall ag =
     saveCheckIn ''id4'' ''2025-01-03T09:00:00.000Z'' ''2025-01-03T09:00:00.005Z''
       [] ''fine'' (RecList []) ag"

text \<open>A sample run: the default agent, and an agent side that answers every request with
  200 except the tone analysis, which it answers with 500 (the \<^verbatim>\<open>catch\<close> branch of the
  handler of \<^verbatim>\<open>/internal/analyze-tone\<close>). The world outside the workflow is not looked
  at.\<close>

definition sampleInput :: CheckInWorkflowInput where
  "sampleInput =
     \<lparr>in_userId = ''default'', in_agentId = ''default'',
      in_checkInTime = ''2025-01-02T09:00:00.000Z'', in_workerUrl = None\<rparr>"

definition okResponse :: Response where
  "okResponse = \<lparr>status = 200, statusText = ''OK'', json = Some emptyJson\<rparr>"

definition errorResponse :: Response where
  "errorResponse = \<lparr>status = 500, statusText = ''Internal Server Error'', json = None\<rparr>"

definition failingAnalysisFetch :: "unit fetch" where
  "failingAnalysisFetch req w =
     (if endsWith (url req) ''/internal/analyze-tone''
      then (Inr errorResponse, w)
      else (Inr okResponse, w))"

definition sampleRequests :: "(nat \<times> string) option \<Rightarrow> Request list" where
  "sampleRequests arrival =
     fst (snd (run (recording failingAnalysisFetch) sampleInput arrival ([], ())))"

section \<open>Properties\<close>

subsection \<open>Recommendation selector\<close>

lemma professional_support_not_in_table:
  "professional_support \<notin> set (recommendations t)"
  by (cases t)
     (simp_all add: recommendations_def recommendations_positive_def
        recommendations_neutral_def recommendations_negative_def professional_support_def)

text \<open>
  Claim C3. The selector is a function of tone and intensity alone. For tone negative and
  intensity 8 it returns the negative list followed by the professional-support
  suggestion, which is its last element; for intensity 3 the result does not contain that
  suggestion. In general the suggestion, which is in none of the per-tone lists, is
  appended once at the end exactly when the tone is negative and the intensity is at
  least 7; in every other case, and when no intensity is given (it is then 5), the
  per-tone list is returned as it is.
\<close>

theorem selectRecommendations_deterministic:
  fixes i :: real
  shows "getMindfulnessRecommendations Negative (Some 8)
           = recommendations_negative @ [professional_support]
       \<and> last (getMindfulnessRecommendations Negative (Some 8)) = professional_support
       \<and> professional_support \<notin> set (getMindfulnessRecommendations Negative (Some 3))
       \<and> professional_support \<notin> set (recommendations t)
       \<and> (7 \<le> i \<longrightarrow> getMindfulnessRecommendations Negative (Some i)
                        = recommendations Negative @ [professional_support])
       \<and> (\<not> (t = Negative \<and> 7 \<le> i) \<longrightarrow> getMindfulnessRecommendations t (Some i)
                        = recommendations t)
       \<and> getMindfulnessRecommendations t None = recommendations t"
  using professional_support_not_in_table [of t] professional_support_not_in_table [of Negative]
  by (auto simp add: getMindfulnessRecommendations_def recommendations_def)

theorem selectRecommendations_deterministic_witness:
  "(7::real) \<le> 9
   \<and> getMindfulnessRecommendations Negative (Some 9)
       = recommendations_negative @ [professional_support]
   \<and> \<not> (Positive = Negative \<and> (7::real) \<le> 9)
   \<and> getMindfulnessRecommendations Positive (Some 9) = recommendations_positive"
  using selectRecommendations_deterministic [of Positive 9]
  by (simp add: recommendations_def)

subsection \<open>Endpoint \<^verbatim>\<open>/internal/get-recommendations\<close>\<close>

lemma professional_support_not_in_endpoint:
  "professional_support \<notin> set endpoint_positive"
  "professional_support \<notin> set endpoint_neutral"
  "professional_support \<notin> set endpoint_negative"
  by (simp_all add: endpoint_positive_def endpoint_neutral_def endpoint_negative_def
        professional_support_def)

text \<open>
  What holds of the endpoint for every request body. The answer does not depend on the
  intensity: two bodies that differ in the intensity only get the same response. The
  positive list answers positive and the negative list answers negative, a tone under
  which the property read finds no member falls back to the neutral list, and no list
  that the endpoint returns contains the professional-support item.
\<close>

lemma get_recommendations_ignores_intensity:
  "get_recommendations (b\<lparr>j_intensity := i1\<rparr>) = get_recommendations (b\<lparr>j_intensity := i2\<rparr>)
   \<and> status (get_recommendations b) = 200
   \<and> (responseRecommendations (get_recommendations b) = Some (RecList xs)
        \<longrightarrow> professional_support \<notin> set xs)
   \<and> (toLowerCase (case j_emotionalTone b of None \<Rightarrow> ''neutral'' | Some t \<Rightarrow> t) = ''positive''
        \<longrightarrow> responseRecommendations (get_recommendations b) = Some (RecList endpoint_positive))
   \<and> (toLowerCase (case j_emotionalTone b of None \<Rightarrow> ''neutral'' | Some t \<Rightarrow> t) = ''negative''
        \<longrightarrow> responseRecommendations (get_recommendations b) = Some (RecList endpoint_negative))
   \<and> (endpoint_recommendations
          (toLowerCase (case j_emotionalTone b of None \<Rightarrow> ''neutral'' | Some t \<Rightarrow> t)) = None
        \<longrightarrow> responseRecommendations (get_recommendations b) = Some (RecList endpoint_neutral))"
  using professional_support_not_in_endpoint
  by (auto simp add: get_recommendations_def responseRecommendations_def Let_def
        endpoint_recommendations_def json_of_member_def emptyJson_def
        split: option.splits if_splits)

lemma toLowerCase_samples:
  "toLowerCase ''POSITIVE'' = ''positive''"
  "toLowerCase ''Negative'' = ''negative''"
  "toLowerCase ''bogus'' = ''bogus''"
  by code_simp+

lemma get_recommendations_ignores_intensity_samples:
  "get_recommendations (emptyJson\<lparr>j_emotionalTone := Some ''Negative'', j_intensity := Some 9\<rparr>)
     = get_recommendations (emptyJson\<lparr>j_emotionalTone := Some ''Negative'', j_intensity := Some 2\<rparr>)
   \<and> toLowerCase ''POSITIVE'' = ''positive''
   \<and> responseRecommendations (get_recommendations (emptyJson\<lparr>j_emotionalTone := Some ''POSITIVE''\<rparr>))
       = Some (RecList endpoint_positive)
   \<and> toLowerCase ''Negative'' = ''negative''
   \<and> responseRecommendations (get_recommendations
         (emptyJson\<lparr>j_emotionalTone := Some ''Negative'', j_intensity := Some 9\<rparr>))
       = Some (RecList endpoint_negative)
   \<and> professional_support \<notin> set endpoint_negative
   \<and> endpoint_recommendations (toLowerCase ''bogus'') = None
   \<and> responseRecommendations (get_recommendations (emptyJson\<lparr>j_emotionalTone := Some ''bogus''\<rparr>))
       = Some (RecList endpoint_neutral)"
proof -
  have u: "endpoint_recommendations (toLowerCase ''bogus'') = None"
    by (simp add: toLowerCase_samples endpoint_recommendations_def)
  have n: "responseRecommendations (get_recommendations
         (emptyJson\<lparr>j_emotionalTone := Some ''Negative'', j_intensity := Some 9\<rparr>))
       = Some (RecList endpoint_negative)"
    using get_recommendations_ignores_intensity
      [where b = "emptyJson\<lparr>j_emotionalTone := Some ''Negative'', j_intensity := Some 9\<rparr>"]
    by (simp add: toLowerCase_samples)
  from n get_recommendations_ignores_intensity
      [where b = "emptyJson\<lparr>j_emotionalTone := Some ''Negative'', j_intensity := Some 9\<rparr>"
         and xs = endpoint_negative]
  have p: "professional_support \<notin> set endpoint_negative" by blast
  have i: "get_recommendations (emptyJson\<lparr>j_emotionalTone := Some ''Negative'', j_intensity := Some 9\<rparr>)
     = get_recommendations (emptyJson\<lparr>j_emotionalTone := Some ''Negative'', j_intensity := Some 2\<rparr>)"
    using get_recommendations_ignores_intensity
      [where b = "emptyJson\<lparr>j_emotionalTone := Some ''Negative''\<rparr>"
         and ?i1.0 = "Some 9" and ?i2.0 = "Some 2"]
    by simp
  from u n p i
    get_recommendations_ignores_intensity
      [where b = "emptyJson\<lparr>j_emotionalTone := Some ''POSITIVE''\<rparr>"]
    get_recommendations_ignores_intensity
      [where b = "emptyJson\<lparr>j_emotionalTone := Some ''bogus''\<rparr>"]
  show ?thesis
    by (simp add: toLowerCase_samples)
qed

lemma toLowerCase_member_names:
  "toLowerCase ''constructor'' = ''constructor''"
  "toLowerCase ''__proto__'' = ''__proto__''"
  "toLowerCase ''CONSTRUCTOR'' = ''constructor''"
  by code_simp+

text \<open>
  Claim C9, evaluated on the code. The fallback to the neutral list does not cover every
  unknown tone. For the tone \<^verbatim>\<open>constructor\<close> (in any case) the property read finds the
  inherited constructor function, and the response carries no recommendations at all; for
  \<^verbatim>\<open>__proto__\<close> it finds the prototype object, and the response carries an empty object
  in place of a list. In both cases the neutral list is not returned, whatever the
  intensity, while an unknown tone such as \<^verbatim>\<open>bogus\<close> does get the neutral list.
\<close>

theorem get_recommendations_inherited_member:
  "responseRecommendations (get_recommendations
       (emptyJson\<lparr>j_emotionalTone := Some ''constructor'', j_intensity := Some 5\<rparr>)) = None
   \<and> responseRecommendations (get_recommendations
       (emptyJson\<lparr>j_emotionalTone := Some ''CONSTRUCTOR'', j_intensity := Some 8\<rparr>)) = None
   \<and> responseRecommendations (get_recommendations
       (emptyJson\<lparr>j_emotionalTone := Some ''__proto__'', j_intensity := Some 5\<rparr>))
         = Some RecObject
   \<and> responseRecommendations (get_recommendations
       (emptyJson\<lparr>j_emotionalTone := Some ''bogus'', j_intensity := Some 5\<rparr>))
         = Some (RecList endpoint_neutral)
   \<and> Some (RecList endpoint_neutral) \<noteq> None
   \<and> Some (RecList endpoint_neutral) \<noteq> Some RecObject"
  by (simp add: get_recommendations_def responseRecommendations_def Let_def
        toLowerCase_member_names toLowerCase_samples endpoint_recommendations_def
        json_of_member_def emptyJson_def)

subsection \<open>Preference store\<close>

text \<open>
  Claim C8. \<^verbatim>\<open>getAgentName\<close> always returns a name and never an error: the name in the
  state when there is one, else the name of the persisted row when there is one, else the
  default name \<^verbatim>\<open>MindGuard\<close>. A failure of the query (here: the table does not exist)
  gives the default name as well.
\<close>

theorem getAgentName_total:
  "getAgentName ag =
     Inr (case stateAgentName ag of
            Some n \<Rightarrow> n
          | None \<Rightarrow> (case persistedAgentName ag of Some n \<Rightarrow> n | None \<Rightarrow> ''MindGuard''))
   \<and> (stateAgentName ag = None \<and> user_preferences ag = None
        \<longrightarrow> getAgentName ag = Inr ''MindGuard'')"
  by (auto simp add: getAgentName_def getAgentName_body_def persistedAgentName_def Let_def
        sql_select_agent_name_def
        split: option.splits sum.splits list.splits)

theorem getAgentName_total_witness:
  "stateAgentName uninitialisedAgent = None \<and> user_preferences uninitialisedAgent = None
   \<and> getAgentName uninitialisedAgent = Inr ''MindGuard''"
proof -
  have h: "stateAgentName uninitialisedAgent = None \<and> user_preferences uninitialisedAgent = None"
    by (simp add: uninitialisedAgent_def stateAgentName_def statePreferences_def)
  with getAgentName_total [of uninitialisedAgent] show ?thesis by blast
qed

lemma updated_names:
  "map pr_agent_name (filter (\<lambda>r. pr_user_id r = u)
      (map (\<lambda>r. if pr_user_id r = u
                 then r\<lparr>pr_agent_name := Some n, pr_updated_at := Some now\<rparr> else r) rows))
   = map (\<lambda>r. Some n) (filter (\<lambda>r. pr_user_id r = u) rows)"
  by (induction rows) auto

lemma upsert_select:
  assumes "sql_upsert_agent_name ag u n now = Inr ag1"
  shows "sql_select_agent_name ag1 u = Inr [Some n]"
proof (cases "user_preferences ag")
  case None
  with assms show ?thesis by (simp add: sql_upsert_agent_name_def)
next
  case (Some rows)
  show ?thesis
  proof (cases "list_ex (\<lambda>r. pr_user_id r = u) rows")
    case True
    then obtain x xs where f: "filter (\<lambda>r. pr_user_id r = u) rows = x # xs"
      by (cases "filter (\<lambda>r. pr_user_id r = u) rows") (auto simp add: list_ex_iff filter_empty_conv)
    from True Some assms have "user_preferences ag1 = Some (map (\<lambda>r. if pr_user_id r = u
                 then r\<lparr>pr_agent_name := Some n, pr_updated_at := Some now\<rparr> else r) rows)"
      by (auto simp add: sql_upsert_agent_name_def)
    then show ?thesis
      by (simp add: sql_select_agent_name_def updated_names f)
  next
    case False
    then have e: "filter (\<lambda>r. pr_user_id r = u) rows = []"
      by (auto simp add: list_ex_iff filter_empty_conv)
    from False Some assms have "user_preferences ag1 = Some (rows @
                      [\<lparr>pr_user_id = u, pr_check_in_time = None, pr_timezone = None,
                        pr_agent_name = Some n, pr_model_provider = None,
                        pr_updated_at = Some now\<rparr>])"
      by (auto simp add: sql_upsert_agent_name_def)
    then show ?thesis
      by (simp add: sql_select_agent_name_def e)
  qed
qed

lemma upsert_keeps_state:
  "sql_upsert_agent_name ag u n now = Inr ag1 \<Longrightarrow> state ag1 = state ag"
  by (auto simp add: sql_upsert_agent_name_def split: option.splits if_splits)

lemma upsert_fails_iff:
  "(\<exists>e. sql_upsert_agent_name ag u n now = Inl e) \<longleftrightarrow> user_preferences ag = None"
  by (auto simp add: sql_upsert_agent_name_def split: option.splits if_splits)

lemma trim_length: "length (trim s) \<le> length s"
proof -
  have "length (dropWhile P xs) \<le> length xs" for P and xs :: string
    by (induction xs) auto
  from this [of is_space "rev (dropWhile is_space s)"] this [of is_space s]
  show ?thesis by (simp add: trim_def)
qed

lemma updateAgentName_success:
  assumes ok: "updateAgentName newName now ag = (Inr (), ag')"
  shows "trim newName \<noteq> [] \<and> length newName \<le> 50
         \<and> stateAgentName ag' = Some (trim newName)
         \<and> persistedAgentName ag' = Some (trim newName)"
proof -
  from ok have t: "trim newName \<noteq> []" and l: "length newName \<le> 50"
    by (auto simp add: updateAgentName_def split: if_splits)
  from ok t l obtain ag1 where
    up: "sql_upsert_agent_name ag (currentUserId ag) (trim newName) now = Inr ag1"
    and ag': "ag' = ag1\<lparr>state := Some
         ((case state ag1 of
             None \<Rightarrow> \<lparr>st_userId = None, st_dailyCheckIns = None,
                       st_lastCheckIn = None, st_preferences = None\<rparr>
           | Some st \<Rightarrow> st)
          \<lparr>st_preferences := Some ((case statePreferences ag1 of
                                None \<Rightarrow> defaultPreferences
                              | Some p \<Rightarrow> p)\<lparr>pf_agentName := trim newName\<rparr>)\<rparr>)\<rparr>"
    by (auto simp add: updateAgentName_def Let_def split: if_splits sum.splits)
  have uid: "currentUserId ag' = currentUserId ag"
    using upsert_keeps_state [OF up]
    by (auto simp add: ag' currentUserId_def split: option.splits)
  have "sql_select_agent_name ag' (currentUserId ag) = Inr [Some (trim newName)]"
    using upsert_select [OF up] by (simp add: ag' sql_select_agent_name_def)
  then have p: "persistedAgentName ag' = Some (trim newName)"
    using t by (simp add: persistedAgentName_def uid)
  have s: "stateAgentName ag' = Some (trim newName)"
    using t by (simp add: ag' stateAgentName_def statePreferences_def)
  from t l s p show ?thesis by simp
qed

lemma updateAgentName_accepts:
  assumes a: "trim newName \<noteq> []" "length newName \<le> 50" "user_preferences ag \<noteq> None"
  shows "\<exists>ag'. updateAgentName newName now ag = (Inr (), ag')"
proof -
  from a have ne: "newName \<noteq> []" by (auto simp add: trim_def)
  from a upsert_fails_iff [of ag "currentUserId ag" "trim newName" now]
  obtain ag1 where "sql_upsert_agent_name ag (currentUserId ag) (trim newName) now = Inr ag1"
    by (cases "sql_upsert_agent_name ag (currentUserId ag) (trim newName) now") auto
  with a ne show ?thesis
    by (simp add: updateAgentName_def Let_def)
qed

lemma updateAgentName_failure:
  "updateAgentName newName now ag = (Inl e, ag') \<Longrightarrow> ag' = ag"
  by (auto simp add: updateAgentName_def Let_def split: if_splits sum.splits)

text \<open>
  Claim C10. \<^verbatim>\<open>updateAgentName\<close> compares the length of the name as given, before
  trimming, with 50: a name of more than 50 characters is refused with an error and the
  agent is left as it was, whatever its length after trimming. A call that succeeds had a
  name that is not empty after trimming and at most 50 characters long as given, and it
  stores the trimmed name in the table and in the state; such a name is accepted whenever
  the table exists. A call that fails leaves the agent unchanged.
\<close>

theorem updateAgentName_raw_length:
  "(50 < length newName \<longrightarrow> (\<exists>e. updateAgentName newName now ag = (Inl e, ag)))
   \<and> (updateAgentName newName now ag = (Inr (), ag')
        \<longrightarrow> trim newName \<noteq> [] \<and> length newName \<le> 50
            \<and> stateAgentName ag' = Some (trim newName)
            \<and> persistedAgentName ag' = Some (trim newName))
   \<and> (trim newName \<noteq> [] \<and> length newName \<le> 50 \<and> user_preferences ag \<noteq> None
        \<longrightarrow> (\<exists>ag'. updateAgentName newName now ag = (Inr (), ag')))
   \<and> (\<forall>e. updateAgentName newName now ag = (Inl e, ag') \<longrightarrow> ag' = ag)"
proof -
  have "50 < length newName \<longrightarrow> (\<exists>e. updateAgentName newName now ag = (Inl e, ag))"
    by (simp add: updateAgentName_def)
  with updateAgentName_success [of newName now ag ag'] updateAgentName_accepts [of newName ag now]
    updateAgentName_failure [of newName now ag _ ag']
  show ?thesis by blast
qed

lemma paddedName_length: "length paddedName = 51"
  by (simp add: paddedName_def)

lemma paddedName_trim: "trim paddedName = ''A''"
  by code_simp

theorem updateAgentName_raw_length_witness:
  "50 < length paddedName \<and> length (trim paddedName) \<le> 50
   \<and> (\<exists>e. updateAgentName paddedName ''2025-01-02T09:00:00.000Z'' freshAgent = (Inl e, freshAgent))
   \<and> trim ''  Bob  '' \<noteq> [] \<and> length ''  Bob  '' \<le> 50 \<and> user_preferences freshAgent \<noteq> None
   \<and> (\<exists>ag'. updateAgentName ''  Bob  '' ''2025-01-02T09:00:00.000Z'' freshAgent = (Inr (), ag')
          \<and> stateAgentName ag' = Some ''Bob'' \<and> persistedAgentName ag' = Some ''Bob'')"
proof -
  have t: "trim ''  Bob  '' = ''Bob''" by (simp add: trim_def is_space_def)
  have h: "trim ''  Bob  '' \<noteq> [] \<and> length ''  Bob  '' \<le> 50 \<and> user_preferences freshAgent \<noteq> None"
    by (simp add: t freshAgent_def)
  from h updateAgentName_raw_length [of "''  Bob  ''" "''2025-01-02T09:00:00.000Z''" freshAgent]
  obtain ag' where s: "updateAgentName ''  Bob  '' ''2025-01-02T09:00:00.000Z'' freshAgent = (Inr (), ag')"
    by blast
  with updateAgentName_raw_length [of "''  Bob  ''" "''2025-01-02T09:00:00.000Z''" freshAgent ag']
  have "stateAgentName ag' = Some ''Bob'' \<and> persistedAgentName ag' = Some ''Bob''"
    by (simp add: t)
  with s h paddedName_length paddedName_trim
    updateAgentName_raw_length [of paddedName "''2025-01-02T09:00:00.000Z''" freshAgent]
  show ?thesis by auto
qed

subsection \<open>Check-in ledger\<close>

lemma currentUserId_nonempty: "currentUserId ag \<noteq> []"
  by (simp add: currentUserId_def split: option.splits)

lemma findIndex_Some: "findIndex P xs = Some i \<Longrightarrow> i < length xs \<and> P (xs ! i)"
  by (induction xs arbitrary: i) (auto split: if_splits option.splits)

lemma findIndex_None: "findIndex P xs = None \<Longrightarrow> \<forall>x \<in> set xs. \<not> P x"
  by (induction xs) (auto split: if_splits option.splits)

lemma saveCheckIn_success:
  assumes "saveCheckIn cid now stamp tone summary recs ag = (Inr (), ag')"
  shows "tone \<noteq> [] \<and> summary \<noteq> [] \<and> currentUserId ag' = currentUserId ag
         \<and> (\<exists>rs rows. recs = RecList rs \<and> check_ins ag = Some rows
              \<and> ((filter (sameDay ag now) rows = []
                    \<and> check_ins ag' = Some (rows @ [newRow cid now stamp tone summary rs ag]))
                 \<or> (\<exists>x xs. filter (sameDay ag now) rows = x # xs
                    \<and> check_ins ag' = Some (map (rewrite (row_id x) stamp tone summary rs) rows))))"
proof -
  from assms have ne: "tone \<noteq> []" "summary \<noteq> []"
    by (auto simp add: saveCheckIn_def split: if_splits)
  from assms ne obtain rs where rs: "recs = RecList rs"
    by (cases recs) (auto simp add: saveCheckIn_def)
  from assms ne rs obtain rows where rows: "check_ins ag = Some rows"
    by (cases "check_ins ag") (auto simp add: saveCheckIn_def Let_def sql_select_check_in_def)
  have sd: "(\<lambda>r. row_user_id r = currentUserId ag \<and> row_date r = isoDate now) = sameDay ag now"
    by (auto simp add: sameDay_def)
  show ?thesis
  proof (cases "filter (sameDay ag now) rows")
    case Nil
    with assms ne rs rows sd currentUserId_nonempty [of ag] show ?thesis
      by (auto simp add: saveCheckIn_def Let_def sql_select_check_in_def sql_insert_check_in_def
            newRow_def currentUserId_def split: if_splits)
  next
    case (Cons x xs)
    with assms ne rs rows sd currentUserId_nonempty [of ag] show ?thesis
      by (auto simp add: saveCheckIn_def Let_def sql_select_check_in_def sql_update_check_in_def
            rewrite_def [abs_def] currentUserId_def split: if_splits)
  qed
qed

lemma recordsFor_sameDay:
  "check_ins ag' = Some rows \<Longrightarrow>
   recordsFor ag' (currentUserId ag) (isoDate now) = filter (sameDay ag now) rows"
  by (simp add: recordsFor_def sameDay_def [abs_def])

lemma sameDay_rewrite [simp]:
  "sameDay ag now (rewrite rid stamp tone summary rs r) = sameDay ag now r"
  by (simp add: sameDay_def rewrite_def)

lemma filter_rewrite:
  "filter (sameDay ag now) (map (rewrite rid stamp tone summary rs) rows)
   = map (rewrite rid stamp tone summary rs) (filter (sameDay ag now) rows)"
  by (induction rows) auto

lemma sameDay_newRow [simp]: "sameDay ag now (newRow cid now stamp tone summary rs ag)"
  by (simp add: sameDay_def newRow_def)

lemma saveCheckIn_records:
  assumes "saveCheckIn cid now stamp tone summary recs ag = (Inr (), ag')"
  shows "\<exists>rs rows rows'. recs = RecList rs \<and> check_ins ag = Some rows \<and> check_ins ag' = Some rows'
           \<and> recordsFor ag' (currentUserId ag) (isoDate now)
               = (case recordsFor ag (currentUserId ag) (isoDate now) of
                    [] \<Rightarrow> [newRow cid now stamp tone summary rs ag]
                  | x # xs \<Rightarrow> map (rewrite (row_id x) stamp tone summary rs) (x # xs))
           \<and> length rows' = (if recordsFor ag (currentUserId ag) (isoDate now) = []
                             then Suc (length rows) else length rows)"
proof -
  from saveCheckIn_success [OF assms] obtain rs rows where
    r: "recs = RecList rs" "check_ins ag = Some rows" and
    c: "(filter (sameDay ag now) rows = []
           \<and> check_ins ag' = Some (rows @ [newRow cid now stamp tone summary rs ag]))
        \<or> (\<exists>x xs. filter (sameDay ag now) rows = x # xs
           \<and> check_ins ag' = Some (map (rewrite (row_id x) stamp tone summary rs) rows))"
    by blast
  from c show ?thesis
  proof
    assume a: "filter (sameDay ag now) rows = []
           \<and> check_ins ag' = Some (rows @ [newRow cid now stamp tone summary rs ag])"
    then show ?thesis
      using r by (simp add: recordsFor_sameDay [of ag] recordsFor_sameDay [of ag'])
  next
    assume "\<exists>x xs. filter (sameDay ag now) rows = x # xs
           \<and> check_ins ag' = Some (map (rewrite (row_id x) stamp tone summary rs) rows)"
    then obtain x xs where a: "filter (sameDay ag now) rows = x # xs"
      "check_ins ag' = Some (map (rewrite (row_id x) stamp tone summary rs) rows)" by blast
    then show ?thesis
      using r by (simp add: recordsFor_sameDay [of ag] recordsFor_sameDay [of ag'] filter_rewrite)
  qed
qed

lemma saveCheckIn_first_record:
  assumes "saveCheckIn cid now stamp tone summary (RecList rs) ag = (Inr (), ag')"
  shows "\<exists>row rest. recordsFor ag' (currentUserId ag) (isoDate now) = row # rest
           \<and> row_emotional_tone row = storedTone tone \<and> row_summary row = summary
           \<and> row_recommendations row = JSON_stringify rs
           \<and> length rest = length (recordsFor ag (currentUserId ag) (isoDate now)) - 1"
  using saveCheckIn_records [OF assms]
  by (auto simp add: newRow_def rewrite_def split: list.splits)

lemma saveCheckIn_memory:
  assumes "saveCheckIn cid now stamp tone summary (RecList rs) ag = (Inr (), ag')"
  shows "\<exists>e \<in> set (memoryEntries ag'). ci_date e = isoDate now
            \<and> ci_emotionalTone e = storedTone tone \<and> ci_summary e = summary
            \<and> ci_recommendations e = rs"
proof -
  let ?old = "memoryEntries ag"
  let ?entry = "\<lparr>ci_date = isoDate now, ci_emotionalTone = storedTone tone,
                 ci_summary = summary, ci_recommendations = rs\<rparr>"
  have m: "memoryEntries ag' =
            (case findIndex (\<lambda>ci. ci_date ci = isoDate now) ?old of
               Some i \<Rightarrow> ?old[i := ?entry] | None \<Rightarrow> ?old @ [?entry])"
    using assms
    by (auto simp add: saveCheckIn_def Let_def memoryEntries_def sql_select_check_in_def
          sql_update_check_in_def sql_insert_check_in_def
          split: if_splits option.splits sum.splits list.splits)
  show ?thesis
  proof (cases "findIndex (\<lambda>ci. ci_date ci = isoDate now) ?old")
    case None
    with m show ?thesis by simp
  next
    case (Some i)
    with findIndex_Some [OF Some] have "?entry \<in> set (memoryEntries ag')"
      by (simp add: m set_update_memI)
    then show ?thesis by (intro bexI [of _ ?entry]) simp_all
  qed
qed

lemma storedTone_eq:
  "storedTone tone = (if toLowerCase tone \<in> set validTones then toLowerCase tone else ''neutral'')"
proof -
  have "toLowerCase ''neutral'' = ''neutral''" by code_simp
  then show ?thesis by (simp add: storedTone_def)
qed

lemma saveCheckIn_accepts:
  assumes "tone \<noteq> []" "summary \<noteq> []" "check_ins ag = Some rows" "cid \<notin> row_id ` set rows"
  shows "\<exists>ag'. saveCheckIn cid now stamp tone summary (RecList rs) ag = (Inr (), ag')"
  using assms
  by (auto simp add: saveCheckIn_def Let_def sql_select_check_in_def sql_update_check_in_def
        sql_insert_check_in_def split: list.splits)

text \<open>
  Claim C1. Two calls of \<^verbatim>\<open>saveCheckIn\<close> that succeed one after the other on the same day,
  starting from a ledger with at most one record of the user for that day, leave exactly
  one record for that user and day. It holds the tone (as stored), the summary and the
  recommendations of the second call, and the second call adds no row: it rewrites the
  record in place.
\<close>

theorem saveCheckIn_idempotent_upsert:
  assumes first: "saveCheckIn id1 now1 stamp1 tone1 summary1 recs1 ag = (Inr (), ag1)"
    and second: "saveCheckIn id2 now2 stamp2 tone2 summary2 (RecList rs2) ag1 = (Inr (), ag2)"
    and day: "isoDate now2 = isoDate now1"
    and before: "length (recordsFor ag (currentUserId ag) (isoDate now1)) \<le> 1"
  shows "\<exists>row. recordsFor ag2 (currentUserId ag) (isoDate now1) = [row]
           \<and> row_emotional_tone row = storedTone tone2
           \<and> row_summary row = summary2
           \<and> row_recommendations row = JSON_stringify rs2
           \<and> rowCount ag2 = rowCount ag1"
proof -
  from saveCheckIn_success [OF first] have u: "currentUserId ag1 = currentUserId ag" by simp
  from saveCheckIn_records [OF first] before
  obtain r1 where one: "recordsFor ag1 (currentUserId ag) (isoDate now1) = [r1]"
    by (cases "recordsFor ag (currentUserId ag) (isoDate now1)") auto
  from saveCheckIn_first_record [OF second] one u day
  obtain row where row: "recordsFor ag2 (currentUserId ag) (isoDate now1) = [row]"
    "row_emotional_tone row = storedTone tone2" "row_summary row = summary2"
    "row_recommendations row = JSON_stringify rs2"
    by auto
  from saveCheckIn_records [OF second] one u day have "rowCount ag2 = rowCount ag1"
    by (auto simp add: rowCount_def)
  with row show ?thesis by blast
qed

lemma sample_calls_succeed:
  "fst (morningCall freshAgent) = Inr ()"
  "fst (eveningCall (snd (morningCall freshAgent))) = Inr ()"
  "fst (bogusCall freshAgent) = Inr ()"
  by code_simp+

lemma sample_days:
  "isoDate ''2025-01-02T09:00:00.000Z'' = ''2025-01-02''"
  "isoDate ''2025-01-02T21:30:00.000Z'' = ''2025-01-02''"
  "isoDate ''2025-01-03T09:00:00.000Z'' = ''2025-01-03''"
  by code_simp+

lemma sample_tones:
  "storedTone ''POSITIVE'' = ''positive''"
  "storedTone ''bogus'' = ''neutral''"
  by code_simp+

theorem saveCheckIn_idempotent_upsert_witness:
  "fst (morningCall freshAgent) = Inr ()
   \<and> fst (eveningCall (snd (morningCall freshAgent))) = Inr ()
   \<and> isoDate ''2025-01-02T21:30:00.000Z'' = isoDate ''2025-01-02T09:00:00.000Z''
   \<and> length (recordsFor freshAgent (currentUserId freshAgent) ''2025-01-02'') \<le> 1
   \<and> (\<exists>row. recordsFor (snd (eveningCall (snd (morningCall freshAgent)))) ''default''
               ''2025-01-02'' = [row]
          \<and> row_emotional_tone row = ''positive''
          \<and> row_summary row = ''better now''
          \<and> row_recommendations row = JSON_stringify [''Take a mindful walk''])"
proof -
  have u: "currentUserId freshAgent = ''default''"
    by (simp add: currentUserId_def freshAgent_def)
  have b: "length (recordsFor freshAgent (currentUserId freshAgent)
             (isoDate ''2025-01-02T09:00:00.000Z'')) \<le> 1"
    by (simp add: recordsFor_def freshAgent_def)
  have first: "saveCheckIn ''id1'' ''2025-01-02T09:00:00.000Z'' ''2025-01-02T09:00:00.005Z''
       ''Negative'' ''rough start'' (RecList [''Write down your feelings'']) freshAgent
     = (Inr (), snd (morningCall freshAgent))"
    using sample_calls_succeed(1) by (simp add: morningCall_def prod_eq_iff)
  have second: "saveCheckIn ''id2'' ''2025-01-02T21:30:00.000Z'' ''2025-01-02T21:30:00.005Z''
       ''POSITIVE'' ''better now'' (RecList [''Take a mindful walk''])
       (snd (morningCall freshAgent))
     = (Inr (), snd (eveningCall (snd (morningCall freshAgent))))"
    using sample_calls_succeed(2) by (simp add: eveningCall_def prod_eq_iff)
  have day: "isoDate ''2025-01-02T21:30:00.000Z'' = isoDate ''2025-01-02T09:00:00.000Z''"
    by (simp add: sample_days)
  from saveCheckIn_idempotent_upsert [OF first second day b]
  have "\<exists>row. recordsFor (snd (eveningCall (snd (morningCall freshAgent)))) ''default''
               ''2025-01-02'' = [row]
          \<and> row_emotional_tone row = ''positive''
          \<and> row_summary row = ''better now''
          \<and> row_recommendations row = JSON_stringify [''Take a mindful walk'']"
    by (auto simp add: sample_days sample_tones u)
  with sample_calls_succeed b show ?thesis
    by (simp add: sample_days u)
qed

text \<open>
  Claim C4, as amended. A call of \<^verbatim>\<open>saveCheckIn\<close> that succeeds had a tone that is not
  empty, and the tone it stores, in the record of the day and in the in-memory entry of
  the day, is the lower case of the given tone when that is one of positive, neutral and
  negative, and \<^verbatim>\<open>neutral\<close> otherwise: \<^verbatim>\<open>POSITIVE\<close> is stored as \<^verbatim>\<open>positive\<close> and
  \<^verbatim>\<open>bogus\<close> as \<^verbatim>\<open>neutral\<close>. An empty tone is not replaced by \<^verbatim>\<open>neutral\<close>: the call is
  refused with an error and changes nothing. A call with a tone and a summary that are not
  empty, on an existing table that does not hold the new id, succeeds.
\<close>

theorem saveCheckIn_tone_normalization:
  "(saveCheckIn cid now stamp tone summary (RecList rs) ag = (Inr (), ag')
      \<longrightarrow> tone \<noteq> []
        \<and> (\<exists>row rest. recordsFor ag' (currentUserId ag) (isoDate now) = row # rest
              \<and> row_emotional_tone row = storedTone tone)
        \<and> (\<exists>e \<in> set (memoryEntries ag'). ci_date e = isoDate now
              \<and> ci_emotionalTone e = storedTone tone))
   \<and> storedTone tone
        = (if toLowerCase tone \<in> set validTones then toLowerCase tone else ''neutral'')
   \<and> storedTone ''POSITIVE'' = ''positive''
   \<and> storedTone ''bogus'' = ''neutral''
   \<and> saveCheckIn cid now stamp [] summary recs ag
        = (Inl (Error ''Emotional tone and summary are required''), ag)
   \<and> (tone \<noteq> [] \<and> summary \<noteq> [] \<and> check_ins ag = Some rows \<and> cid \<notin> row_id ` set rows
        \<longrightarrow> (\<exists>ag'. saveCheckIn cid now stamp tone summary (RecList rs) ag = (Inr (), ag')))"
proof -
  have a: "saveCheckIn cid now stamp tone summary (RecList rs) ag = (Inr (), ag')
      \<longrightarrow> tone \<noteq> []
        \<and> (\<exists>row rest. recordsFor ag' (currentUserId ag) (isoDate now) = row # rest
              \<and> row_emotional_tone row = storedTone tone)
        \<and> (\<exists>e \<in> set (memoryEntries ag'). ci_date e = isoDate now
              \<and> ci_emotionalTone e = storedTone tone)"
    using saveCheckIn_success [of cid now stamp tone summary "RecList rs" ag ag']
      saveCheckIn_first_record [of cid now stamp tone summary rs ag ag']
      saveCheckIn_memory [of cid now stamp tone summary rs ag ag']
    by blast
  have e: "saveCheckIn cid now stamp [] summary recs ag
        = (Inl (Error ''Emotional tone and summary are required''), ag)"
    by (simp add: saveCheckIn_def)
  from a e storedTone_eq [of tone] sample_tones
    saveCheckIn_accepts [of tone summary ag rows cid now stamp rs]
  show ?thesis by blast
qed

theorem saveCheckIn_tone_normalization_witness:
  "fst (bogusCall freshAgent) = Inr ()
   \<and> ''bogus'' \<noteq> []
   \<and> (\<exists>row rest. recordsFor (snd (bogusCall freshAgent)) ''default'' ''2025-01-03'' = row # rest
          \<and> row_emotional_tone row = ''neutral'')
   \<and> (\<exists>e \<in> set (memoryEntries (snd (bogusCall freshAgent))).
          ci_date e = ''2025-01-03'' \<and> ci_emotionalTone e = ''neutral'')
   \<and> ''POSITIVE'' \<noteq> [] \<and> ''better now'' \<noteq> [] \<and> check_ins freshAgent = Some []
   \<and> ''id2'' \<notin> row_id ` set []
   \<and> (\<exists>ag'. eveningCall freshAgent = (Inr (), ag'))"
proof -
  have u: "currentUserId freshAgent = ''default''"
    by (simp add: currentUserId_def freshAgent_def)
  have c: "check_ins freshAgent = Some []" by (simp add: freshAgent_def)
  have call: "saveCheckIn ''id3'' ''2025-01-03T09:00:00.000Z'' ''2025-01-03T09:00:00.005Z''
       ''bogus'' ''fine'' (RecList []) freshAgent = (Inr (), snd (bogusCall freshAgent))"
    using sample_calls_succeed(3) by (simp add: bogusCall_def prod_eq_iff)
  from call saveCheckIn_tone_normalization
    [where cid = "''id3''" and now = "''2025-01-03T09:00:00.000Z''"
       and stamp = "''2025-01-03T09:00:00.005Z''" and tone = "''bogus''"
       and summary = "''fine''" and rs = "[]"
       and ag = freshAgent and ag' = "snd (bogusCall freshAgent)"]
  have stored: "(\<exists>row rest. recordsFor (snd (bogusCall freshAgent)) ''default'' ''2025-01-03''
                  = row # rest \<and> row_emotional_tone row = ''neutral'')
     \<and> (\<exists>e \<in> set (memoryEntries (snd (bogusCall freshAgent))).
          ci_date e = ''2025-01-03'' \<and> ci_emotionalTone e = ''neutral'')"
    by (simp add: u sample_days sample_tones)
  from c saveCheckIn_tone_normalization
    [where cid = "''id2''" and now = "''2025-01-02T21:30:00.000Z''"
       and stamp = "''2025-01-02T21:30:00.005Z''" and tone = "''POSITIVE''"
       and summary = "''better now''" and rs = "[''Take a mindful walk'']"
       and ag = freshAgent and rows = "[]"]
  have "\<exists>ag'. eveningCall freshAgent = (Inr (), ag')"
    by (simp add: eveningCall_def)
  with stored c sample_calls_succeed(3) show ?thesis by simp
qed

text \<open>Claim C4 as stated fails for the empty tone: the call is an error, no record is
  written and no entry is kept, so no tone \<^verbatim>\<open>neutral\<close> is stored.\<close>

theorem saveCheckIn_empty_tone_counterexample:
  "emptyToneCall freshAgent
     = (Inl (Error ''Emotional tone and summary are required''), freshAgent)
   \<and> recordsFor (snd (emptyToneCall freshAgent)) ''default'' ''2025-01-03'' = []
   \<and> memoryEntries (snd (emptyToneCall freshAgent)) = []"
  by (simp add: emptyToneCall_def saveCheckIn_def recordsFor_def memoryEntries_def
        freshAgent_def)

subsection \<open>Scheduler\<close>

lemma dailyJobs_schedule:
  "dailyJobs (schedule newId when ''executeDailyCheckIn'' payload ag)
   = dailyJobs ag @ [\<lparr>sch_id = newId, sch_callback = ''executeDailyCheckIn'',
                      sch_trigger = Cron when, sch_payload = payload\<rparr>]"
  by (simp add: dailyJobs_def getSchedules_def schedule_def)

lemma hasDailyCheckIn_iff:
  "list_ex (\<lambda>s. sch_callback s = ''executeDailyCheckIn'') (getSchedules ag)
   \<longleftrightarrow> dailyJobs ag \<noteq> []"
  by (auto simp add: dailyJobs_def list_ex_iff filter_empty_conv)

lemma currentCheckInTime_schedule [simp]:
  "currentCheckInTime (schedule newId when callback payload ag) = currentCheckInTime ag"
  by (simp add: currentCheckInTime_def statePreferences_def schedule_def)

lemma scheduleDailyCheckIn_invalid_time:
  "\<not> timeRegex_test (currentCheckInTime ag) \<Longrightarrow> scheduleDailyCheckIn newId ag = ag"
  by (simp add: scheduleDailyCheckIn_def)

lemma scheduleDailyCheckIn_existing:
  "dailyJobs ag \<noteq> [] \<Longrightarrow> scheduleDailyCheckIn newId ag = ag"
  by (simp add: scheduleDailyCheckIn_def Let_def hasDailyCheckIn_iff)

lemma scheduleDailyCheckIn_creates:
  "timeRegex_test (currentCheckInTime ag) \<Longrightarrow> dailyJobs ag = [] \<Longrightarrow>
   scheduleDailyCheckIn newId ag
   = schedule newId ''* * * * *'' ''executeDailyCheckIn'' ''Daily wellness check-in'' ag"
  by (simp add: scheduleDailyCheckIn_def Let_def hasDailyCheckIn_iff)

lemma scheduleDailyCheckIn_time [simp]:
  "currentCheckInTime (scheduleDailyCheckIn newId ag) = currentCheckInTime ag"
  by (simp add: scheduleDailyCheckIn_def Let_def)

lemma scheduleDailyCheckIn_once:
  assumes "timeRegex_test (currentCheckInTime ag)" and "length (dailyJobs ag) \<le> 1"
  shows "length (dailyJobs (scheduleDailyCheckIn newId ag)) = 1"
proof (cases "dailyJobs ag = []")
  case True
  with assms show ?thesis
    by (simp add: scheduleDailyCheckIn_creates dailyJobs_schedule)
next
  case False
  with assms have "length (dailyJobs ag) = 1"
    by (cases "dailyJobs ag") auto
  with False show ?thesis
    by (simp add: scheduleDailyCheckIn_existing)
qed

text \<open>
  Claim C2. For an agent whose check-in time is well formed and that has at most one
  daily check-in job, two calls of \<^verbatim>\<open>scheduleDailyCheckIn\<close> in a row leave exactly one job
  whose callback is \<^verbatim>\<open>executeDailyCheckIn\<close>, and the second call changes nothing. Whatever
  the agent, a call looks at the list of jobs first and leaves it as it is when a daily
  check-in job is there, so it never adds a second one to an existing one.
\<close>

theorem scheduleDailyCheckIn_no_duplicate:
  assumes "timeRegex_test (currentCheckInTime ag)" and "length (dailyJobs ag) \<le> 1"
  shows "length (dailyJobs (scheduleDailyCheckIn id2 (scheduleDailyCheckIn id1 ag))) = 1
       \<and> scheduleDailyCheckIn id2 (scheduleDailyCheckIn id1 ag) = scheduleDailyCheckIn id1 ag
       \<and> (\<forall>ag' newId. dailyJobs ag' \<noteq> [] \<longrightarrow> scheduleDailyCheckIn newId ag' = ag')"
proof -
  from scheduleDailyCheckIn_once [OF assms]
  have one: "length (dailyJobs (scheduleDailyCheckIn id1 ag)) = 1" .
  then have "dailyJobs (scheduleDailyCheckIn id1 ag) \<noteq> []" by auto
  then have "scheduleDailyCheckIn id2 (scheduleDailyCheckIn id1 ag) = scheduleDailyCheckIn id1 ag"
    by (rule scheduleDailyCheckIn_existing)
  with one scheduleDailyCheckIn_existing show ?thesis by simp
qed

lemma freshAgent_time: "currentCheckInTime freshAgent = ''09:00''"
  by (simp add: currentCheckInTime_def statePreferences_def freshAgent_def)

lemma freshAgent_jobs: "dailyJobs freshAgent = []"
  by (simp add: dailyJobs_def getSchedules_def freshAgent_def)

lemma default_time_valid: "timeRegex_test ''09:00''"
  by (simp add: in_range_def minutes_ok_def)

theorem scheduleDailyCheckIn_no_duplicate_witness:
  "timeRegex_test (currentCheckInTime freshAgent) \<and> length (dailyJobs freshAgent) \<le> 1
   \<and> length (dailyJobs (scheduleDailyCheckIn ''job2'' (scheduleDailyCheckIn ''job1'' freshAgent))) = 1
   \<and> scheduleDailyCheckIn ''job2'' (scheduleDailyCheckIn ''job1'' freshAgent)
       = scheduleDailyCheckIn ''job1'' freshAgent"
proof -
  have t: "timeRegex_test (currentCheckInTime freshAgent)"
    unfolding freshAgent_time by (rule default_time_valid)
  have j: "length (dailyJobs freshAgent) \<le> 1"
    by (simp add: freshAgent_jobs)
  from scheduleDailyCheckIn_no_duplicate [OF t j, of "''job2''" "''job1''"] t j
  show ?thesis by blast
qed

text \<open>
  Claim C7, evaluated on the code. On a fresh agent, whose check-in time is the default
  09:00, the method of \<^verbatim>\<open>src/server.ts\<close> creates the daily job with the cron expression
  \<^verbatim>\<open>* * * * *\<close> (every minute), not with \<^verbatim>\<open>00 09 * * *\<close>; the earlier variant of the method
  creates it with \<^verbatim>\<open>00 09 * * *\<close>.
\<close>

theorem scheduleDailyCheckIn_every_minute:
  "schedules (scheduleDailyCheckIn ''job1'' freshAgent)
     = [\<lparr>sch_id = ''job1'', sch_callback = ''executeDailyCheckIn'',
         sch_trigger = Cron ''* * * * *'', sch_payload = ''Daily wellness check-in''\<rparr>]
   \<and> schedules (scheduleDailyCheckIn_earlier ''job1'' freshAgent)
     = [\<lparr>sch_id = ''job1'', sch_callback = ''executeDailyCheckIn'',
         sch_trigger = Cron ''00 09 * * *'', sch_payload = ''Daily wellness check-in''\<rparr>]"
proof -
  have s: "split_on CHR '':'' ''09:00'' = [''09'', ''00'']" by simp
  have e: "getSchedules freshAgent = []" by (simp add: getSchedules_def freshAgent_def)
  have v: "timeRegex_test (currentCheckInTime freshAgent)"
    unfolding freshAgent_time by (rule default_time_valid)
  have now: "scheduleDailyCheckIn ''job1'' freshAgent
     = schedule ''job1'' ''* * * * *'' ''executeDailyCheckIn'' ''Daily wellness check-in'' freshAgent"
    using v by (simp add: scheduleDailyCheckIn_def Let_def e)
  have earlier: "scheduleDailyCheckIn_earlier ''job1'' freshAgent
     = schedule ''job1'' ''00 09 * * *'' ''executeDailyCheckIn'' ''Daily wellness check-in'' freshAgent"
    using v by (simp add: scheduleDailyCheckIn_earlier_def Let_def e)
         (simp add: freshAgent_time at_index_def template_str_def)
  show ?thesis
    unfolding now earlier by (simp add: schedule_def freshAgent_def)
qed

subsection \<open>Check-in workflow\<close>

lemma endsWith_append: "endsWith (p @ suffix) suffix"
  by (simp add: endsWith_def)

lemma endsWith_last: "endsWith s suffix \<Longrightarrow> suffix \<noteq> [] \<Longrightarrow> last s = last suffix"
proof -
  assume a: "endsWith s suffix" and n: "suffix \<noteq> []"
  then have "s = take (length s - length suffix) s @ suffix"
    by (metis append_take_drop_id endsWith_def)
  then have "last s = last (take (length s - length suffix) s @ suffix)" by simp
  with n show ?thesis by (simp only: last_append if_False)
qed

lemma endpointUrl_last:
  "route \<noteq> [] \<Longrightarrow> last (endpointUrl workerUrl agentId route) = last route"
  by (simp add: endpointUrl_def)

lemma reminder_is_reminder: "isReminder (reminderRequest workerUrl agentId)"
proof -
  have "endpointUrl workerUrl agentId ''send-message''
        = (workerUrl @ ''/agents/mindguard/'' @ agentId) @ ''/internal/send-message''"
    by (simp add: endpointUrl_def)
  then have "endsWith (endpointUrl workerUrl agentId ''send-message'') ''/internal/send-message''"
    by (simp only: endsWith_append)
  then show ?thesis
    by (simp add: isReminder_def reminderRequest_def post_def emptyJson_def)
qed

lemma prompt_is_no_reminder: "\<not> isReminder (sendCheckInRequest workerUrl agentId)"
  by (simp add: isReminder_def sendCheckInRequest_def post_def emptyJson_def
        checkInMessage_def reminderMessage_def)

lemma no_ledger_write:
  "\<not> isLedgerWrite (sendCheckInRequest workerUrl agentId)"
  "\<not> isLedgerWrite (reminderRequest workerUrl agentId)"
  "\<not> isLedgerWrite (analyzeRequest workerUrl agentId reply)"
proof -
  have "\<not> endsWith (endpointUrl workerUrl agentId route) ''/internal/save-check-in''"
    if "route \<noteq> []" "last route \<noteq> CHR ''n''" for route
    using that endsWith_last [of "endpointUrl workerUrl agentId route" "''/internal/save-check-in''"]
    by (auto simp add: endpointUrl_last)
  from this [of "''send-check-in-message''"] this [of "''send-message''"]
    this [of "''analyze-tone''"]
  show "\<not> isLedgerWrite (sendCheckInRequest workerUrl agentId)"
    "\<not> isLedgerWrite (reminderRequest workerUrl agentId)"
    "\<not> isLedgerWrite (analyzeRequest workerUrl agentId reply)"
    by (simp_all add: isLedgerWrite_def sendCheckInRequest_def reminderRequest_def
          analyzeRequest_def post_def)
qed

lemma waitForEvent_silent:
  "arrival = None \<or> (\<exists>t reply. arrival = Some (t, reply) \<and> timeout \<le> t)
   \<Longrightarrow> waitForEvent arrival timeout = None"
  by (auto simp add: waitForEvent_def)

lemma run_timeout:
  assumes "fetch (sendCheckInRequest (workerUrlOf input) (in_agentId input)) w = (Inr r1, w1)"
    and "ok r1"
    and "arrival = None \<or> (\<exists>t reply. arrival = Some (t, reply) \<and> waitTimeout \<le> t)"
    and "fetch (reminderRequest (workerUrlOf input) (in_agentId input)) w1 = (r2, w2)"
  shows "run (recording fetch) input arrival ([], w)
         = ((case r2 of Inl e \<Rightarrow> Inl e | Inr response \<Rightarrow> Inr ()),
            ([sendCheckInRequest (workerUrlOf input) (in_agentId input),
              reminderRequest (workerUrlOf input) (in_agentId input)], w2))"
  using assms(1,2,4) waitForEvent_silent [OF assms(3)]
  by (simp add: run_def Let_def step_send_check_in_message_def step_handle_timeout_def
        recording_def split: sum.splits)

text \<open>
  Claim C6. In a run whose first step succeeds (so that the wait for the reply is
  registered) and in which no reply event comes before the deadline of 24 hours, the
  requests made are the check-in prompt and then the reminder, and nothing else: exactly
  one reminder message is sent, and no request goes to the route that writes the ledger.
  The run ends without an error when the reminder request is answered.
\<close>

theorem run_timeout_branch:
  assumes "fetch (sendCheckInRequest (workerUrlOf input) (in_agentId input)) w = (Inr r1, w1)"
    and "ok r1"
    and "arrival = None \<or> (\<exists>t reply. arrival = Some (t, reply) \<and> waitTimeout \<le> t)"
  shows "fst (snd (run (recording fetch) input arrival ([], w)))
           = [sendCheckInRequest (workerUrlOf input) (in_agentId input),
              reminderRequest (workerUrlOf input) (in_agentId input)]
       \<and> length (filter isReminder (fst (snd (run (recording fetch) input arrival ([], w))))) = 1
       \<and> filter isLedgerWrite (fst (snd (run (recording fetch) input arrival ([], w)))) = []
       \<and> (\<forall>r2 w2. fetch (reminderRequest (workerUrlOf input) (in_agentId input)) w1 = (Inr r2, w2)
            \<longrightarrow> fst (run (recording fetch) input arrival ([], w)) = Inr ())"
proof -
  obtain r2 w2 where
    f: "fetch (reminderRequest (workerUrlOf input) (in_agentId input)) w1 = (r2, w2)"
    by (cases "fetch (reminderRequest (workerUrlOf input) (in_agentId input)) w1")
  from run_timeout [OF assms f] f show ?thesis
    by (auto simp add: reminder_is_reminder prompt_is_no_reminder no_ledger_write)
qed

lemma run_analysis_failure:
  assumes "t < waitTimeout"
    and "fetch (sendCheckInRequest (workerUrlOf input) (in_agentId input)) w = (Inr r1, w1)"
    and "ok r1"
    and "fetch (analyzeRequest (workerUrlOf input) (in_agentId input) reply) w1 = (ra, w2)"
    and "\<forall>r. ra = Inr r \<longrightarrow> \<not> ok r"
  shows "run (recording fetch) input (Some (t, reply)) ([], w)
           = (Inl (case ra of
                     Inl e \<Rightarrow> e
                   | Inr r \<Rightarrow> Error (''Failed to analyze tone: '' @ statusText r)),
              ([sendCheckInRequest (workerUrlOf input) (in_agentId input),
                analyzeRequest (workerUrlOf input) (in_agentId input) reply], w2))"
  using assms
  by (cases ra)
     (simp_all add: run_def Let_def step_send_check_in_message_def run_reply_def
        step_analyze_emotional_tone_def recording_def waitForEvent_def)

text \<open>
  Claim C5, as amended. When the reply comes before the timeout and the tone-analysis
  request fails (the call throws, or the answer is not OK), the run ends with an error at
  that step: the only requests made are the check-in prompt and the analysis request, so
  no recommendations are asked for, nothing is written to the ledger and no summary is
  sent. No tone is made up. The only default is for the intensity: an analysis that
  succeeded without an intensity is passed on with intensity 5.
\<close>

theorem run_analysis_failure_aborts:
  assumes "t < waitTimeout"
    and "fetch (sendCheckInRequest (workerUrlOf input) (in_agentId input)) w = (Inr r1, w1)"
    and "ok r1"
    and "fetch (analyzeRequest (workerUrlOf input) (in_agentId input) reply) w1 = (ra, w2)"
    and "\<forall>r. ra = Inr r \<longrightarrow> \<not> ok r"
  shows "(\<exists>e. run (recording fetch) input (Some (t, reply)) ([], w)
           = (Inl e, ([sendCheckInRequest (workerUrlOf input) (in_agentId input),
                       analyzeRequest (workerUrlOf input) (in_agentId input) reply], w2)))
       \<and> filter isLedgerWrite (fst (snd (run (recording fetch) input (Some (t, reply)) ([], w)))) = []
       \<and> j_intensity (body (recommendationsRequest (workerUrlOf input) (in_agentId input)
                          (analysis\<lparr>j_intensity := None\<rparr>))) = Some 5"
proof -
  from run_analysis_failure [OF assms] obtain e where
    r: "run (recording fetch) input (Some (t, reply)) ([], w)
           = (Inl e, ([sendCheckInRequest (workerUrlOf input) (in_agentId input),
                       analyzeRequest (workerUrlOf input) (in_agentId input) reply], w2))"
    by simp
  have "j_intensity (body (recommendationsRequest (workerUrlOf input) (in_agentId input)
                          (analysis\<lparr>j_intensity := None\<rparr>))) = Some 5"
    by (simp add: recommendationsRequest_def post_def emptyJson_def)
  with r show ?thesis
    by (simp add: no_ledger_write)
qed

lemma sample_prompt:
  "failingAnalysisFetch
     (sendCheckInRequest (workerUrlOf sampleInput) (in_agentId sampleInput)) ()
   = (Inr okResponse, ())"
  by code_simp

lemma sample_analysis:
  "failingAnalysisFetch
     (analyzeRequest (workerUrlOf sampleInput) (in_agentId sampleInput) ''I feel sad today'') ()
   = (Inr errorResponse, ())"
  by code_simp

lemma sample_responses: "ok okResponse" "\<not> ok errorResponse"
  by (simp_all add: ok_def okResponse_def errorResponse_def)

lemma sample_urls:
  "map url [sendCheckInRequest (workerUrlOf sampleInput) (in_agentId sampleInput),
            reminderRequest (workerUrlOf sampleInput) (in_agentId sampleInput)]
   = [''https://mindguard.nkemkaomeiza.workers.dev/agents/mindguard/default/internal/send-check-in-message'',
      ''https://mindguard.nkemkaomeiza.workers.dev/agents/mindguard/default/internal/send-message'']"
  "map url [sendCheckInRequest (workerUrlOf sampleInput) (in_agentId sampleInput),
            analyzeRequest (workerUrlOf sampleInput) (in_agentId sampleInput) ''I feel sad today'']
   = [''https://mindguard.nkemkaomeiza.workers.dev/agents/mindguard/default/internal/send-check-in-message'',
      ''https://mindguard.nkemkaomeiza.workers.dev/agents/mindguard/default/internal/analyze-tone'']"
  by code_simp+

theorem run_timeout_branch_witness:
  "failingAnalysisFetch
     (sendCheckInRequest (workerUrlOf sampleInput) (in_agentId sampleInput)) ()
     = (Inr okResponse, ())
   \<and> ok okResponse
   \<and> waitTimeout \<le> 90000
   \<and> map url (sampleRequests (Some (90000, ''too late'')))
       = [''https://mindguard.nkemkaomeiza.workers.dev/agents/mindguard/default/internal/send-check-in-message'',
          ''https://mindguard.nkemkaomeiza.workers.dev/agents/mindguard/default/internal/send-message'']
   \<and> length (filter isReminder (sampleRequests (Some (90000, ''too late'')))) = 1
   \<and> filter isLedgerWrite (sampleRequests (Some (90000, ''too late''))) = []"
proof -
  have late: "waitTimeout \<le> 90000" by (simp add: waitTimeout_def)
  then have silent: "Some (90000, ''too late'') = None
      \<or> (\<exists>t reply. Some (90000, ''too late'') = Some (t, reply) \<and> waitTimeout \<le> t)"
    by simp
  note main = run_timeout_branch
    [where fetch = failingAnalysisFetch and input = sampleInput and w = "()"
       and ?r1.0 = okResponse and ?w1.0 = "()" and arrival = "Some (90000, ''too late'')",
     OF sample_prompt sample_responses(1) silent]
  from main have reqs: "sampleRequests (Some (90000, ''too late''))
          = [sendCheckInRequest (workerUrlOf sampleInput) (in_agentId sampleInput),
             reminderRequest (workerUrlOf sampleInput) (in_agentId sampleInput)]"
    unfolding sampleRequests_def by blast
  from main have one: "length (filter isReminder (sampleRequests (Some (90000, ''too late'')))) = 1"
    unfolding sampleRequests_def by blast
  from main have none: "filter isLedgerWrite (sampleRequests (Some (90000, ''too late''))) = []"
    unfolding sampleRequests_def by blast
  have urls: "map url (sampleRequests (Some (90000, ''too late'')))
       = [''https://mindguard.nkemkaomeiza.workers.dev/agents/mindguard/default/internal/send-check-in-message'',
          ''https://mindguard.nkemkaomeiza.workers.dev/agents/mindguard/default/internal/send-message'']"
    unfolding reqs by (rule sample_urls(1))
  from sample_prompt sample_responses(1) late urls one none show ?thesis
    by blast
qed

theorem run_analysis_failure_aborts_witness:
  "60 < waitTimeout
   \<and> failingAnalysisFetch
       (sendCheckInRequest (workerUrlOf sampleInput) (in_agentId sampleInput)) ()
       = (Inr okResponse, ())
   \<and> ok okResponse
   \<and> failingAnalysisFetch
       (analyzeRequest (workerUrlOf sampleInput) (in_agentId sampleInput) ''I feel sad today'') ()
       = (Inr errorResponse, ())
   \<and> \<not> ok errorResponse
   \<and> (\<exists>e. run (recording failingAnalysisFetch) sampleInput (Some (60, ''I feel sad today''))
              ([], ())
            = (Inl e, ([sendCheckInRequest (workerUrlOf sampleInput) (in_agentId sampleInput),
                        analyzeRequest (workerUrlOf sampleInput) (in_agentId sampleInput)
                          ''I feel sad today''], ())))
   \<and> filter isLedgerWrite (sampleRequests (Some (60, ''I feel sad today''))) = []"
proof -
  have early: "60 < waitTimeout" by (simp add: waitTimeout_def)
  have fails: "\<forall>r. Inr errorResponse = Inr r \<longrightarrow> \<not> ok r"
    by (simp add: sample_responses)
  from run_analysis_failure_aborts
    [where fetch = failingAnalysisFetch and input = sampleInput and w = "()"
       and ?r1.0 = okResponse and ?w1.0 = "()" and t = 60 and reply = "''I feel sad today''"
       and ra = "Inr errorResponse" and ?w2.0 = "()",
     OF early sample_prompt sample_responses(1) sample_analysis fails]
    early sample_prompt sample_analysis sample_responses
  show ?thesis
    unfolding sampleRequests_def by blast
qed

text \<open>Claim C5 as stated fails: with a reply after 60 seconds and a tone analysis that is
  answered with status 500, the run ends with the error of the analysis step after two
  requests, the prompt and the analysis; no request follows for recommendations, for the
  ledger or for a summary.\<close>

theorem run_analysis_failure_counterexample:
  "fst (run (recording failingAnalysisFetch) sampleInput (Some (60, ''I feel sad today''))
          ([], ()))
     = Inl (Error ''Failed to analyze tone: Internal Server Error'')
   \<and> map url (sampleRequests (Some (60, ''I feel sad today'')))
       = [''https://mindguard.nkemkaomeiza.workers.dev/agents/mindguard/default/internal/send-check-in-message'',
          ''https://mindguard.nkemkaomeiza.workers.dev/agents/mindguard/default/internal/analyze-tone'']
   \<and> filter isLedgerWrite (sampleRequests (Some (60, ''I feel sad today''))) = []"
proof -
  have early: "60 < waitTimeout" by (simp add: waitTimeout_def)
  have fails: "\<forall>r. Inr errorResponse = Inr r \<longrightarrow> \<not> ok r"
    by (simp add: sample_responses)
  have "run (recording failingAnalysisFetch) sampleInput (Some (60, ''I feel sad today''))
          ([], ())
        = (Inl (Error (''Failed to analyze tone: '' @ statusText errorResponse)),
           ([sendCheckInRequest (workerUrlOf sampleInput) (in_agentId sampleInput),
             analyzeRequest (workerUrlOf sampleInput) (in_agentId sampleInput)
               ''I feel sad today''], ()))"
    using run_analysis_failure
      [where fetch = failingAnalysisFetch and input = sampleInput and w = "()"
         and ?r1.0 = okResponse and ?w1.0 = "()" and t = 60 and reply = "''I feel sad today''"
         and ra = "Inr errorResponse" and ?w2.0 = "()",
       OF early sample_prompt sample_responses(1) sample_analysis fails]
    by simp
  then show ?thesis
    using sample_urls(2)
    by (simp add: sampleRequests_def no_ledger_write errorResponse_def)
qed

end
